theory Spec2Isabelle
  imports Main "HOL-Library.Word"
begin

section \<open>Data model of the connection bridge\<close>

text \<open>
  The development embeds \<^verbatim>\<open>integration_testing/connection_bridge.go\<close>. The bridge's own
  functions (\<^verbatim>\<open>getVersionMessage\<close>, \<^verbatim>\<open>startConnection\<close>, \<^verbatim>\<open>routeTraffic\<close>,
  \<^verbatim>\<open>waitForConnection\<close>, \<^verbatim>\<open>Start\<close>, \<^verbatim>\<open>Restart\<close>, \<^verbatim>\<open>Disconnect\<close>) are translated
  statement by statement. What they consume from the packages \<^verbatim>\<open>lib\<close> and \<^verbatim>\<open>cmd\<close>
  (nodes, peers, messages) and from the Go runtime (sockets, clock, random numbers, the
  wait group, the scheduler) is made explicit: every value the code obtains from outside is an
  argument of the function that obtains it.
\<close>

type_synonym uint64 = "64 word"
type_synonym uint32 = "32 word"
type_synonym uint16 = "16 word"
type_synonym int64 = "64 word" \<comment> \<open>two's complement, arithmetic wraps as in Go\<close>

text \<open>
  Modelled from the spec: the service flag constants of \<^verbatim>\<open>lib\<close> are not part of the
  source file. The spec calls the field a service-capability bitset, so \<^verbatim>\<open>Services\<close> is
  a set of flags and \<^verbatim>\<open>|=\<close> adds a flag to it.
\<close>

datatype ServiceFlag = SFFullNode | SFHyperSync | SFArchivalNode

text \<open>
  Modelled from the spec: the node collaborator (\<^verbatim>\<open>cmd.Node\<close>), reduced to what the bridge
  reads from it: the protocol parameters, the configuration, and the server whose chain tip
  gives the current height and whose connection manager dials out. \<^verbatim>\<open>node.Server\<close> may be
  nil: \<^verbatim>\<open>getVersionMessage\<close> tests it, \<^verbatim>\<open>createOutboundConnection\<close> dereferences it. The
  parameters and the configuration of a node, and the connection manager of a server, are
  taken to be present.
\<close>

record DeSoParams =
  ProtocolVersion :: uint64
  UserAgent :: string

record Config =
  ProtocolPort :: uint16
  HyperSync :: bool
  ArchivalMode :: bool
  MinFeerate :: uint64

record Server =
  BlockTipHeight :: uint64
    \<comment> \<open>\<^verbatim>\<open>GetBlockchain().BlockTip().Header.Height\<close>\<close>

record Node =
  Params :: DeSoParams
  Config :: Config
  Server :: "Server option"

text \<open>
  Modelled from the spec: the message kinds the bridge names (version, verack, address list,
  address request); every other kind is opaque, a type tag and its bytes.
\<close>

record MsgDeSoVersion =
  Version :: uint64
  Services :: "ServiceFlag set"
  TstampSecs :: int64
  Nonce :: uint64
  MsgUserAgent :: string \<comment> \<open>the message's \<^verbatim>\<open>UserAgent\<close> field\<close>
  StartBlockHeight :: uint32
  MinFeeRateNanosPerKB :: uint64

datatype MsgType =
  MsgTypeVersion | MsgTypeVerack | MsgTypeAddr | MsgTypeGetAddr | MsgTypeOther nat

datatype DeSoMessage =
  MsgVersion MsgDeSoVersion
  | MsgDeSoVerack uint64
  | MsgDeSoAddr "8 word list"
  | MsgDeSoGetAddr
  | MsgOther nat "8 word list"

fun GetMsgType :: "DeSoMessage \<Rightarrow> MsgType" where
  "GetMsgType (MsgVersion v) = MsgTypeVersion"
| "GetMsgType (MsgDeSoVerack n) = MsgTypeVerack"
| "GetMsgType (MsgDeSoAddr bs) = MsgTypeAddr"
| "GetMsgType MsgDeSoGetAddr = MsgTypeGetAddr"
| "GetMsgType (MsgOther k bs) = MsgTypeOther k"

text \<open>\<^verbatim>\<open>lib.NewMessage(lib.MsgTypeVersion)\<close>: a version message with Go's zero values.\<close>

definition NewVersionMessage :: MsgDeSoVersion where
  "NewVersionMessage =
     \<lparr>Version = 0, Services = {}, TstampSecs = 0, Nonce = 0, MsgUserAgent = [],
      StartBlockHeight = 0, MinFeeRateNanosPerKB = 0\<rparr>"

datatype error =
  ErrRead \<comment> \<open>\<^verbatim>\<open>ReadDeSoMessage\<close> failed\<close>
  | ErrWrite \<comment> \<open>\<^verbatim>\<open>WriteDeSoMessage\<close> failed\<close>
  | ErrReadTimeout \<comment> \<open>\<^verbatim>\<open>ReadWithTimeout\<close> gave up\<close>
  | ErrNotVerack MsgType \<comment> \<open>"message is not verack!"\<close>
  | ErrNonce uint64 uint64 \<comment> \<open>"verack message nonce doesn't match"\<close>
  | ErrTimedOut \<comment> \<open>"Timed out" of \<^verbatim>\<open>waitForConnection\<close>\<close>

subsection \<open>The peer leg\<close>

text \<open>
  Modelled from the spec: the peer (\<^verbatim>\<open>lib.Peer\<close>) with the mutable handshake fields the
  bridge writes, and its socket. The socket is described by what the remote node will do on it:
  \<open>incoming\<close> lists, in order, what arrives (a message, a broken connection, or a silence
  longer than the negotiation timeout), \<open>wfail\<close> lists whether each coming write fails (writes
  beyond the list succeed), and \<open>sent\<close> collects the messages written successfully.
\<close>

datatype rd_event = Delivered DeSoMessage | Broken | Silent

record Peer =
  ID :: uint64
  isOutbound :: bool
  VersionNonceSent :: uint64
  VersionNonceReceived :: uint64
  TimeConnected :: int64 \<comment> \<open>seconds of \<^verbatim>\<open>time.Unix(secs, 0)\<close>\<close>
  TimeOffsetSecs :: int64
  VersionNegotiated :: bool
  disconnected :: bool
  incoming :: "rd_event list"
  wfail :: "bool list"
  sent :: "DeSoMessage list"

text \<open>What the environment decides when a socket is wrapped into a peer.\<close>

record leg_env =
  le_id :: uint64 \<comment> \<open>\<^verbatim>\<open>lib.RandInt64(math.MaxInt64)\<close>\<close>
  le_incoming :: "rd_event list"
  le_wfail :: "bool list"

text \<open>
  Modelled from the spec: the construct-from-socket operation \<^verbatim>\<open>lib.NewPeer\<close>, with its
  \<^verbatim>\<open>_isOutbound\<close> argument, followed by the assignment of the random \<^verbatim>\<open>ID\<close>.
\<close>

definition NewPeer :: "leg_env \<Rightarrow> bool \<Rightarrow> Peer" where
  "NewPeer le outbound =
     \<lparr>ID = le_id le, isOutbound = outbound, VersionNonceSent = 0, VersionNonceReceived = 0,
      TimeConnected = 0, TimeOffsetSecs = 0, VersionNegotiated = False, disconnected = False,
      incoming = le_incoming le, wfail = le_wfail le, sent = []\<rparr>"

text \<open>
  Modelled from the spec: the peer's send-message operation \<^verbatim>\<open>WriteDeSoMessage\<close>. The result
  is the error, if any, and the peer afterwards.
\<close>

definition WriteDeSoMessage :: "Peer \<Rightarrow> DeSoMessage \<Rightarrow> error option \<times> Peer" where
  "WriteDeSoMessage p m =
     (case wfail p of
        [] \<Rightarrow> (None, p\<lparr>sent := sent p @ [m]\<rparr>)
      | f # fs \<Rightarrow>
          if f then (Some ErrWrite, p\<lparr>wfail := fs\<rparr>)
          else (None, p\<lparr>wfail := fs, sent := sent p @ [m]\<rparr>))"

text \<open>
  Modelled from the spec: the peer's receive-message operation \<^verbatim>\<open>ReadDeSoMessage\<close> without a
  deadline, as the router calls it. It blocks until something arrives; \<open>None\<close> is a read that
  never returns (nothing will ever arrive).
\<close>

fun next_arrival :: "rd_event list \<Rightarrow> ((error + DeSoMessage) \<times> rd_event list) option" where
  "next_arrival [] = None"
| "next_arrival (Delivered m # es) = Some (Inr m, es)"
| "next_arrival (Broken # es) = Some (Inl ErrRead, es)"
| "next_arrival (Silent # es) = next_arrival es"

definition ReadDeSoMessage :: "Peer \<Rightarrow> ((error + DeSoMessage) \<times> Peer) option" where
  "ReadDeSoMessage p =
     (case next_arrival (incoming p) of
        None \<Rightarrow> None
      | Some (r, es) \<Rightarrow> Some (r, p\<lparr>incoming := es\<rparr>))"

text \<open>
  Modelled from the spec: the bounded-wait variant of receive,
  \<^verbatim>\<open>ReadWithTimeout(readFunc, timeout)\<close>. The closure reads one message and handles it; when
  nothing arrives before the deadline the call returns a timeout error instead. The closure
  is given here as the function \<open>handle\<close> of the read's result.
\<close>

definition ReadWithTimeout ::
  "((error + DeSoMessage) \<Rightarrow> Peer \<Rightarrow> error option \<times> Peer) \<Rightarrow> Peer \<Rightarrow> error option \<times> Peer" where
  "ReadWithTimeout handle p =
     (case incoming p of
        [] \<Rightarrow> (Some ErrReadTimeout, p)
      | Silent # es \<Rightarrow> (Some ErrReadTimeout, p\<lparr>incoming := es\<rparr>)
      | Delivered m # es \<Rightarrow> handle (Inr m) (p\<lparr>incoming := es\<rparr>)
      | Broken # es \<Rightarrow> handle (Inl ErrRead) (p\<lparr>incoming := es\<rparr>))"

section \<open>The handshake engine\<close>

text \<open>
  \<^verbatim>\<open>getVersionMessage(node)\<close>. The clock reading \<open>now\<close> and the random number \<open>rnd\<close> are
  what \<^verbatim>\<open>time.Now().Unix()\<close> and \<^verbatim>\<open>lib.RandInt64(math.MaxInt64)\<close> return.
\<close>

definition getVersionMessage :: "Node \<Rightarrow> int64 \<Rightarrow> uint64 \<Rightarrow> MsgDeSoVersion" where
  "getVersionMessage node now rnd =
     (let ver = NewVersionMessage;
          ver = ver\<lparr>Version := ProtocolVersion (Params node)\<rparr>;
          ver = ver\<lparr>TstampSecs := now\<rparr>;
          ver = ver\<lparr>Nonce := rnd\<rparr>;
          ver = ver\<lparr>MsgUserAgent := UserAgent (Params node)\<rparr>;
          ver = ver\<lparr>Services := {SFFullNode}\<rparr>;
          ver = (if HyperSync (Config node)
                 then (let ver = ver\<lparr>Services := insert SFHyperSync (Services ver)\<rparr>
                       in if ArchivalMode (Config node)
                          then ver\<lparr>Services := insert SFArchivalNode (Services ver)\<rparr>
                          else ver)
                 else ver);
          ver = (case Server node of
                   Some srv \<Rightarrow> ver\<lparr>StartBlockHeight := ucast (BlockTipHeight srv)\<rparr>
                 | None \<Rightarrow> ver)
      in ver\<lparr>MinFeeRateNanosPerKB := MinFeerate (Config node)\<rparr>)"

text \<open>What the environment decides during one handshake.\<close>

record hs_env =
  hs_now_sent :: int64 \<comment> \<open>the clock when the version message is built\<close>
  hs_nonce :: uint64 \<comment> \<open>the random nonce\<close>
  hs_now_recv :: int64 \<comment> \<open>the clock when the reply is handled\<close>

text \<open>The closure of the first \<^verbatim>\<open>ReadWithTimeout\<close>: the reply to the version message.\<close>

definition onVersionReply :: "int64 \<Rightarrow> (error + DeSoMessage) \<Rightarrow> Peer \<Rightarrow> error option \<times> Peer" where
  "onVersionReply now r connection =
     (case r of
        Inl err \<Rightarrow> (Some err, connection)
      | Inr msg \<Rightarrow>
          (case msg of
             MsgVersion verMsg \<Rightarrow>
               (None, connection\<lparr>VersionNonceReceived := Nonce verMsg,
                                  TimeConnected := TstampSecs verMsg,
                                  TimeOffsetSecs := TstampSecs verMsg - now\<rparr>)
           | _ \<Rightarrow> \<comment> \<open>\<^verbatim>\<open>if !ok { return err }\<close>, where \<^verbatim>\<open>err\<close> is nil at this point\<close>
               (None, connection)))"

text \<open>The closure of the second \<^verbatim>\<open>ReadWithTimeout\<close>: the reply to the verack.\<close>

definition onVerackReply :: "(error + DeSoMessage) \<Rightarrow> Peer \<Rightarrow> error option \<times> Peer" where
  "onVerackReply r connection =
     (case r of
        Inl err \<Rightarrow> (Some err, connection)
      | Inr msg \<Rightarrow>
          if GetMsgType msg \<noteq> MsgTypeVerack then (Some (ErrNotVerack (GetMsgType msg)), connection)
          else (case msg of
                  MsgDeSoVerack n \<Rightarrow>
                    if n \<noteq> VersionNonceSent connection
                    then (Some (ErrNonce n (VersionNonceSent connection)), connection)
                    else (None, connection)
                | _ \<Rightarrow> \<comment> \<open>not reached: only a verack has the type \<^verbatim>\<open>MsgTypeVerack\<close>\<close>
                    (None, connection)))"

text \<open>\<^verbatim>\<open>startConnection(connection, otherNode)\<close> on the peer the pointer refers to.\<close>

definition startConnection :: "Peer \<Rightarrow> Node \<Rightarrow> hs_env \<Rightarrow> error option \<times> Peer" where
  "startConnection connection otherNode env =
     (let versionMessage = getVersionMessage otherNode (hs_now_sent env) (hs_nonce env);
          connection = connection\<lparr>VersionNonceSent := Nonce versionMessage\<rparr>
      in case WriteDeSoMessage connection (MsgVersion versionMessage) of
           (Some err, connection) \<Rightarrow> (Some err, connection)
         | (None, connection) \<Rightarrow>
             (case ReadWithTimeout (onVersionReply (hs_now_recv env)) connection of
                (Some err, connection) \<Rightarrow> (Some err, connection)
              | (None, connection) \<Rightarrow>
                  (let verackMsg = MsgDeSoVerack (VersionNonceReceived connection)
                   in case WriteDeSoMessage connection verackMsg of
                        (Some err, connection) \<Rightarrow> (Some err, connection)
                      | (None, connection) \<Rightarrow>
                          (case ReadWithTimeout onVerackReply connection of
                             (Some err, connection) \<Rightarrow> (Some err, connection)
                           | (None, connection) \<Rightarrow>
                               (None, connection\<lparr>VersionNegotiated := True\<rparr>)))))"

section \<open>The bridge\<close>

text \<open>
  Peers are reached through pointers, so they live in a store: \<open>peers\<close> maps an address to
  the peer allocated there, and a pointer field of the bridge holds an address or is nil
  (\<open>None\<close>). A listener is held by value: its port and whether it is still open.
\<close>

record Listener =
  l_port :: nat
  l_open :: bool

text \<open>
  The struct \<^verbatim>\<open>ConnectionBridge\<close>, followed by the two pieces of program state around it:
  the store of peers, and the router tasks that \<^verbatim>\<open>go bridge.routeTraffic(...)\<close> has
  launched (source and destination pointer of each). \<open>waitGroup\<close> is the counter of the
  \<^verbatim>\<open>sync.WaitGroup\<close>. The unbuffered channel \<^verbatim>\<open>newPeerChan\<close> holds nothing between calls; what
  a receive on it yields is an argument of \<open>waitForConnection\<close>.
\<close>

record ConnectionBridge =
  nodeA :: Node
  connectionInboundA :: "nat option"
  connectionOutboundA :: "nat option"
  outboundListenerA :: "Listener option"
  nodeB :: Node
  connectionInboundB :: "nat option"
  connectionOutboundB :: "nat option"
  outboundListenerB :: "Listener option"
  paused :: bool
  disabled :: bool
  waitGroup :: nat
  connectionAttempt :: int
  peers :: "nat \<Rightarrow> Peer option"
  next_peer :: nat
  tasks :: "(nat option \<times> nat option) list"

definition NewConnectionBridge :: "Node \<Rightarrow> Node \<Rightarrow> ConnectionBridge" where
  "NewConnectionBridge a b =
     \<lparr>nodeA = a, connectionInboundA = None, connectionOutboundA = None,
      outboundListenerA = None,
      nodeB = b, connectionInboundB = None, connectionOutboundB = None,
      outboundListenerB = None,
      paused = False, disabled = False, waitGroup = 0, connectionAttempt = 0,
      peers = (\<lambda>a. None), next_peer = 0, tasks = []\<rparr>"

text \<open>Allocating a peer object: a fresh address, and the store extended.\<close>

definition alloc :: "Peer \<Rightarrow> ConnectionBridge \<Rightarrow> nat \<times> ConnectionBridge" where
  "alloc p bridge =
     (next_peer bridge,
      bridge\<lparr>peers := (peers bridge)(next_peer bridge := Some p),
             next_peer := Suc (next_peer bridge)\<rparr>)"

text \<open>
  A call either returns, panics, or blocks for ever. A panic of the code (\<^verbatim>\<open>panic(err)\<close>,
  a nil pointer dereference, a negative wait group counter) is the outcome \<open>Panics\<close>.
\<close>

datatype 'a outcome = Returns 'a | Panics | Blocks

text \<open>
  \<^verbatim>\<open>createInboundConnection(node)\<close>: \<open>dial\<close> is \<open>None\<close> when the address does not resolve
  or the dial fails (the code panics), and otherwise describes the socket obtained. The peer is
  created with \<^verbatim>\<open>_isOutbound\<close> true.
\<close>

definition createInboundConnection ::
  "Node \<Rightarrow> leg_env option \<Rightarrow> ConnectionBridge \<Rightarrow> (nat \<times> ConnectionBridge) option" where
  "createInboundConnection node dial bridge =
     (case dial of
        None \<Rightarrow> None \<comment> \<open>\<^verbatim>\<open>panic(err)\<close>\<close>
      | Some le \<Rightarrow> Some (alloc (NewPeer le True) bridge))"

text \<open>
  \<^verbatim>\<open>createOutboundConnection(node, otherNode, ll)\<close> starts a task that accepts on the
  listener, then makes \<open>node\<close> dial the listener through
  \<^verbatim>\<open>node.Server.GetConnectionManager()\<close>, evaluated by the caller: with \<^verbatim>\<open>node.Server\<close> nil the
  call panics. The accepting task, once it has a socket, reads
  \<^verbatim>\<open>otherNode.Server.GetConnectionManager().AddrMgr\<close> (with \<^verbatim>\<open>otherNode.Server\<close> nil the task
  panics, which ends the program), wraps the socket into a peer (\<^verbatim>\<open>_isOutbound\<close> false) and
  offers it on \<^verbatim>\<open>newPeerChan\<close>.

  \<open>accepted\<close> is \<open>None\<close> when the accept fails or the node never dials, and otherwise gives the
  time (in nanoseconds after the call) at which the accepting task has its socket, and that
  socket. The result of the call is what the accepting task will do, and when.
\<close>

datatype handoff = Offers Peer | TaskPanics

definition createOutboundConnection ::
  "Node \<Rightarrow> Node \<Rightarrow> Listener \<Rightarrow> (nat \<times> leg_env) option \<Rightarrow> (nat \<times> handoff) option outcome" where
  "createOutboundConnection node otherNode ll accepted =
     (case Server node of
        None \<Rightarrow> Panics
      | Some srv \<Rightarrow>
          Returns
            (if l_open ll
             then (case accepted of
                     None \<Rightarrow> None
                   | Some (t, le) \<Rightarrow>
                       (case Server otherNode of
                          None \<Rightarrow> Some (t, TaskPanics)
                        | Some osrv \<Rightarrow> Some (t, Offers (NewPeer le False))))
             else None))"

definition second :: nat where
  "second = 1000000000" \<comment> \<open>\<^verbatim>\<open>time.Second\<close>, in nanoseconds\<close>

text \<open>
  \<^verbatim>\<open>waitForConnection()\<close>: a select between a ticker of 30 seconds and a receive on
  \<^verbatim>\<open>newPeerChan\<close>. When both are ready at the same instant Go picks one of them; \<open>tie\<close> says
  that the ticker wins then. A panic of the accepting task before the ticker fires ends the
  program while the call waits. The result carries the time the call took, in nanoseconds.
\<close>

definition waitForConnection ::
  "(nat \<times> handoff) option \<Rightarrow> bool \<Rightarrow> ConnectionBridge \<Rightarrow>
     ((error + nat) \<times> nat) outcome \<times> ConnectionBridge" where
  "waitForConnection pending_offer tie bridge =
     (case pending_offer of
        None \<Rightarrow> (Returns (Inl ErrTimedOut, 30 * second), bridge)
      | Some (t, h) \<Rightarrow>
          if t < 30 * second \<or> (t = 30 * second \<and> \<not> tie)
          then (case h of
                  Offers p \<Rightarrow> (let (peer, bridge) = alloc p bridge in (Returns (Inr peer, t), bridge))
                | TaskPanics \<Rightarrow> (Panics, bridge))
          else (Returns (Inl ErrTimedOut, 30 * second), bridge))"

text \<open>\<^verbatim>\<open>startConnection\<close> through a pointer: a nil or dangling pointer panics.\<close>

definition startConnectionAt ::
  "nat option \<Rightarrow> Node \<Rightarrow> hs_env \<Rightarrow> ConnectionBridge \<Rightarrow> error option outcome \<times> ConnectionBridge" where
  "startConnectionAt connection otherNode env bridge =
     (case connection of
        None \<Rightarrow> (Panics, bridge)
      | Some a \<Rightarrow>
          (case peers bridge a of
             None \<Rightarrow> (Panics, bridge)
           | Some p \<Rightarrow>
               (let (err, p) = startConnection p otherNode env
                in (Returns err, bridge\<lparr>peers := (peers bridge)(a := Some p)\<rparr>))))"

text \<open>Everything the environment decides during one run of \<^verbatim>\<open>Start\<close>.\<close>

record start_env =
  se_listenA :: "nat option" \<comment> \<open>the port of the first \<^verbatim>\<open>net.Listen\<close>, \<open>None\<close> when it fails\<close>
  se_listenB :: "nat option"
  se_dialA :: "leg_env option"
  se_dialB :: "leg_env option"
  se_hsInA :: hs_env
  se_hsInB :: hs_env
  se_acceptA :: "(nat \<times> leg_env) option"
  se_tieA :: bool
  se_acceptB :: "(nat \<times> leg_env) option"
  se_tieB :: bool
  se_hsOutA :: hs_env
  se_hsOutB :: hs_env

text \<open>
  \<^verbatim>\<open>Start()\<close> is given in the four parts its comments mark, last part first. The result
  is the returned error (\<open>None\<close> for nil) or a panic.

  The last part: the four \<^verbatim>\<open>go bridge.routeTraffic(...)\<close> statements append to \<open>tasks\<close>, and
  \<^verbatim>\<open>Start\<close> returns nil.
\<close>

definition Start_routing :: "ConnectionBridge \<Rightarrow> error option outcome \<times> ConnectionBridge" where
  "Start_routing bridge =
     (Returns None,
      bridge\<lparr>tasks := tasks bridge @
         [(connectionOutboundA bridge, connectionInboundB bridge),
          (connectionInboundB bridge, connectionOutboundA bridge),
          (connectionOutboundB bridge, connectionInboundA bridge),
          (connectionInboundA bridge, connectionOutboundB bridge)]\<rparr>)"

text \<open>"Start the outbound connections from nodes."\<close>

definition Start_outbound_handshakes ::
  "start_env \<Rightarrow> ConnectionBridge \<Rightarrow> error option outcome \<times> ConnectionBridge" where
  "Start_outbound_handshakes env bridge =
     (case startConnectionAt (connectionOutboundA bridge) (nodeB bridge) (se_hsOutA env) bridge of
        (Returns None, bridge) \<Rightarrow>
          (case startConnectionAt (connectionOutboundB bridge) (nodeB bridge) (se_hsOutB env) bridge of
             (Returns None, bridge) \<Rightarrow> Start_routing bridge
           | (r, bridge) \<Rightarrow> (r, bridge))
      | (r, bridge) \<Rightarrow> (r, bridge))"

text \<open>
  "Initialize outbound connections from nodes.", given in two parts, the acquisition of
  \<open>connectionOutboundB\<close> first. On a timeout the assignment
  \<^verbatim>\<open>bridge.connectionOutboundB, err = bridge.waitForConnection()\<close> has stored nil.
\<close>

definition Start_outbound_B ::
  "start_env \<Rightarrow> ConnectionBridge \<Rightarrow> error option outcome \<times> ConnectionBridge" where
  "Start_outbound_B env bridge =
     (case outboundListenerB bridge of None \<Rightarrow> (Panics, bridge) | Some listenerB \<Rightarrow>
      case createOutboundConnection (nodeB bridge) (nodeA bridge) listenerB (se_acceptB env) of
        Panics \<Rightarrow> (Panics, bridge)
      | Blocks \<Rightarrow> (Blocks, bridge)
      | Returns pending_offer \<Rightarrow>
          (case waitForConnection pending_offer (se_tieB env) bridge of
             (Returns (Inl err, t), bridge) \<Rightarrow>
               (Returns (Some err), bridge\<lparr>connectionOutboundB := None\<rparr>)
           | (Returns (Inr peer, t), bridge) \<Rightarrow>
               Start_outbound_handshakes env (bridge\<lparr>connectionOutboundB := Some peer\<rparr>)
           | (Panics, bridge) \<Rightarrow> (Panics, bridge)
           | (Blocks, bridge) \<Rightarrow> (Blocks, bridge)))"

text \<open>The acquisition of \<open>connectionOutboundA\<close>, followed by the part above.\<close>

definition Start_outbound ::
  "start_env \<Rightarrow> ConnectionBridge \<Rightarrow> error option outcome \<times> ConnectionBridge" where
  "Start_outbound env bridge =
     (case outboundListenerA bridge of None \<Rightarrow> (Panics, bridge) | Some listenerA \<Rightarrow>
      case createOutboundConnection (nodeA bridge) (nodeB bridge) listenerA (se_acceptA env) of
        Panics \<Rightarrow> (Panics, bridge)
      | Blocks \<Rightarrow> (Blocks, bridge)
      | Returns pending_offer \<Rightarrow>
          (case waitForConnection pending_offer (se_tieA env) bridge of
             (Returns (Inl err, t), bridge) \<Rightarrow>
               (Returns (Some err), bridge\<lparr>connectionOutboundA := None\<rparr>)
           | (Returns (Inr peer, t), bridge) \<Rightarrow>
               Start_outbound_B env (bridge\<lparr>connectionOutboundA := Some peer\<rparr>)
           | (Panics, bridge) \<Rightarrow> (Panics, bridge)
           | (Blocks, bridge) \<Rightarrow> (Blocks, bridge)))"

text \<open>"Start the inbound connections."\<close>

definition Start_inbound_handshakes ::
  "start_env \<Rightarrow> ConnectionBridge \<Rightarrow> error option outcome \<times> ConnectionBridge" where
  "Start_inbound_handshakes env bridge =
     (case startConnectionAt (connectionInboundA bridge) (nodeB bridge) (se_hsInA env) bridge of
        (Returns None, bridge) \<Rightarrow>
          (case startConnectionAt (connectionInboundB bridge) (nodeA bridge) (se_hsInB env) bridge of
             (Returns None, bridge) \<Rightarrow> Start_outbound env bridge
           | (r, bridge) \<Rightarrow> (r, bridge))
      | (r, bridge) \<Rightarrow> (r, bridge))"

text \<open>
  The beginning of \<^verbatim>\<open>Start()\<close>: the flag, the two listeners (a failing \<^verbatim>\<open>net.Listen\<close>
  panics), and "Initialize inbound connections to nodes."
\<close>

definition Start :: "start_env \<Rightarrow> ConnectionBridge \<Rightarrow> error option outcome \<times> ConnectionBridge" where
  "Start env bridge =
     (let bridge = bridge\<lparr>disabled := False\<rparr> in
      case se_listenA env of None \<Rightarrow> (Panics, bridge) | Some portA \<Rightarrow>
      case se_listenB env of None \<Rightarrow> (Panics, bridge) | Some portB \<Rightarrow>
      (let bridge = bridge\<lparr>outboundListenerA := Some \<lparr>l_port = portA, l_open = True\<rparr>\<rparr>;
           bridge = bridge\<lparr>outboundListenerB := Some \<lparr>l_port = portB, l_open = True\<rparr>\<rparr>
       in case createInboundConnection (nodeA bridge) (se_dialA env) bridge of
            None \<Rightarrow> (Panics, bridge)
          | Some (peer, bridge) \<Rightarrow>
              (let bridge = bridge\<lparr>connectionInboundA := Some peer\<rparr>
               in case createInboundConnection (nodeB bridge) (se_dialB env) bridge of
                    None \<Rightarrow> (Panics, bridge)
                  | Some (peer, bridge) \<Rightarrow>
                      Start_inbound_handshakes env (bridge\<lparr>connectionInboundB := Some peer\<rparr>))))"

text \<open>Sequencing: the next statement runs when the call before it has returned.\<close>

definition andThen ::
  "unit outcome \<times> ConnectionBridge \<Rightarrow> (ConnectionBridge \<Rightarrow> 'a outcome \<times> ConnectionBridge) \<Rightarrow>
     'a outcome \<times> ConnectionBridge" where
  "andThen r k =
     (case r of
        (Returns u, bridge) \<Rightarrow> k bridge
      | (Panics, bridge) \<Rightarrow> (Panics, bridge)
      | (Blocks, bridge) \<Rightarrow> (Blocks, bridge))"

text \<open>
  Modelled from the spec: the peer's disconnect/close, through a pointer. It marks the peer
  disconnected; on a nil pointer the call panics.
\<close>

definition PeerDisconnect :: "nat option \<Rightarrow> ConnectionBridge \<Rightarrow> unit outcome \<times> ConnectionBridge" where
  "PeerDisconnect peer bridge =
     (case peer of
        None \<Rightarrow> (Panics, bridge)
      | Some a \<Rightarrow>
          (case peers bridge a of
             None \<Rightarrow> (Panics, bridge)
           | Some p \<Rightarrow>
               (Returns (), bridge\<lparr>peers := (peers bridge)(a := Some (p\<lparr>disconnected := True\<rparr>))\<rparr>)))"

text \<open>\<^verbatim>\<open>Close()\<close> of a listener; the call on a nil interface value panics.\<close>

definition ListenerClose :: "Listener option \<Rightarrow> Listener option outcome" where
  "ListenerClose ll = (case ll of None \<Rightarrow> Panics | Some l \<Rightarrow> Returns (Some (l\<lparr>l_open := False\<rparr>)))"

definition closeListenerA :: "ConnectionBridge \<Rightarrow> unit outcome \<times> ConnectionBridge" where
  "closeListenerA bridge =
     (case ListenerClose (outboundListenerA bridge) of
        Returns ll \<Rightarrow> (Returns (), bridge\<lparr>outboundListenerA := ll\<rparr>)
      | Panics \<Rightarrow> (Panics, bridge)
      | Blocks \<Rightarrow> (Blocks, bridge))"

definition closeListenerB :: "ConnectionBridge \<Rightarrow> unit outcome \<times> ConnectionBridge" where
  "closeListenerB bridge =
     (case ListenerClose (outboundListenerB bridge) of
        Returns ll \<Rightarrow> (Returns (), bridge\<lparr>outboundListenerB := ll\<rparr>)
      | Panics \<Rightarrow> (Panics, bridge)
      | Blocks \<Rightarrow> (Blocks, bridge))"

subsection \<open>The wait group\<close>

text \<open>
  The counter of \<^verbatim>\<open>sync.WaitGroup\<close>: \<^verbatim>\<open>Add(1)\<close> increments it, \<^verbatim>\<open>Done()\<close> decrements it and
  panics below zero, \<^verbatim>\<open>Wait()\<close> returns once it is zero. While a task waits, only other
  tasks can decrement the counter: \<open>released\<close> is the number of \<^verbatim>\<open>Done()\<close> calls the other
  tasks make during the wait. The wait returns when these bring the counter to zero, and
  blocks for ever otherwise.
\<close>

definition wgAdd :: "ConnectionBridge \<Rightarrow> ConnectionBridge" where
  "wgAdd bridge = bridge\<lparr>waitGroup := waitGroup bridge + 1\<rparr>"

definition wgDone :: "ConnectionBridge \<Rightarrow> unit outcome \<times> ConnectionBridge" where
  "wgDone bridge =
     (if waitGroup bridge = 0 then (Panics, bridge)
      else (Returns (), bridge\<lparr>waitGroup := waitGroup bridge - 1\<rparr>))"

definition wgWait :: "nat \<Rightarrow> ConnectionBridge \<Rightarrow> unit outcome \<times> ConnectionBridge" where
  "wgWait released bridge =
     (if waitGroup bridge \<le> released then (Returns (), bridge\<lparr>waitGroup := 0\<rparr>)
      else (Blocks, bridge\<lparr>waitGroup := waitGroup bridge - released\<rparr>))"

subsection \<open>Disconnect and Restart\<close>

definition Disconnect :: "nat \<Rightarrow> ConnectionBridge \<Rightarrow> unit outcome \<times> ConnectionBridge" where
  "Disconnect released bridge =
     (if disabled bridge then (Returns (), bridge)
      else
        (let bridge = bridge\<lparr>disabled := True\<rparr> in
         andThen (PeerDisconnect (connectionInboundA bridge) bridge) (\<lambda>bridge.
         andThen (PeerDisconnect (connectionInboundB bridge) bridge) (\<lambda>bridge.
         andThen (PeerDisconnect (connectionOutboundA bridge) bridge) (\<lambda>bridge.
         andThen (PeerDisconnect (connectionOutboundB bridge) bridge) (\<lambda>bridge.
         andThen (closeListenerA bridge) (\<lambda>bridge.
         andThen (closeListenerB bridge) (\<lambda>bridge.
         wgWait released bridge))))))))"

text \<open>What the environment decides during one \<^verbatim>\<open>Restart\<close>.\<close>

record restart_env =
  re_released :: nat
  re_start :: start_env

text \<open>\<^verbatim>\<open>Restart()\<close> has no result: what \<^verbatim>\<open>Start()\<close> returns is dropped.\<close>

definition Restart :: "restart_env \<Rightarrow> ConnectionBridge \<Rightarrow> unit outcome \<times> ConnectionBridge" where
  "Restart env bridge =
     andThen (Disconnect (re_released env) bridge) (\<lambda>bridge.
       case Start (re_start env) bridge of
         (Returns err, bridge) \<Rightarrow> (Returns (), bridge)
       | (Panics, bridge) \<Rightarrow> (Panics, bridge)
       | (Blocks, bridge) \<Rightarrow> (Blocks, bridge))"

section \<open>The traffic router\<close>

text \<open>
  \<open>paused\<close> and \<open>disabled\<close> are plain fields that other tasks write while a router runs. A
  router reads \<open>disabled\<close> and \<open>paused\<close> at the top of each iteration and \<open>disabled\<close> again
  after its read has returned. A \<open>tick\<close> gives the values the two fields hold at these two
  moments of one iteration: \<open>obs_disabled\<close> and \<open>obs_paused\<close> at the top, \<open>obs_disabled_after\<close>
  and \<open>paused_after\<close> when the read returns (the code does not look at \<open>paused\<close> there). The
  step stores these values in the fields at these moments.
\<close>

record tick =
  obs_disabled :: bool
  obs_paused :: bool
  obs_disabled_after :: bool
  paused_after :: bool

text \<open>How a statement of the loop body leaves it, and how a router task ends.\<close>

datatype router_end = Exited | Panicked | BlockedInRead | BlockedInWait | Looping

datatype control = Continue | Break | Stop router_end

text \<open>\<^verbatim>\<open>bridge.Restart(); return\<close>\<close>

definition restartAndReturn :: "restart_env \<Rightarrow> ConnectionBridge \<Rightarrow> control \<times> ConnectionBridge" where
  "restartAndReturn renv bridge =
     (case Restart renv bridge of
        (Returns u, bridge) \<Rightarrow> (Stop Exited, bridge)
      | (Panics, bridge) \<Rightarrow> (Stop Panicked, bridge)
      | (Blocks, bridge) \<Rightarrow> (Stop BlockedInWait, bridge))"

text \<open>
  The branch \<^verbatim>\<open>if err != nil\<close> after the read: the message printed names
  \<^verbatim>\<open>destination.Conn\<close>, so a nil destination panics there, before the restart.
\<close>

definition onReadError ::
  "restart_env \<Rightarrow> nat option \<Rightarrow> ConnectionBridge \<Rightarrow> control \<times> ConnectionBridge" where
  "onReadError renv destination bridge =
     (case destination of
        None \<Rightarrow> (Stop Panicked, bridge)
      | Some d \<Rightarrow>
          (case peers bridge d of
             None \<Rightarrow> (Stop Panicked, bridge)
           | Some dp \<Rightarrow> restartAndReturn renv bridge))"

text \<open>The \<^verbatim>\<open>default\<close> branch of the type switch: write the message to the destination.\<close>

definition forward ::
  "restart_env \<Rightarrow> nat option \<Rightarrow> DeSoMessage \<Rightarrow> ConnectionBridge \<Rightarrow> control \<times> ConnectionBridge" where
  "forward renv destination inMsg bridge =
     (case destination of
        None \<Rightarrow> (Stop Panicked, bridge)
      | Some d \<Rightarrow>
          (case peers bridge d of
             None \<Rightarrow> (Stop Panicked, bridge)
           | Some dp \<Rightarrow>
               (case WriteDeSoMessage dp inMsg of
                  (Some err, dp) \<Rightarrow>
                    restartAndReturn renv (bridge\<lparr>peers := (peers bridge)(d := Some dp)\<rparr>)
                | (None, dp) \<Rightarrow> (Continue, bridge\<lparr>peers := (peers bridge)(d := Some dp)\<rparr>))))"

text \<open>The type switch on the message read.\<close>

fun dispatch ::
  "restart_env \<Rightarrow> nat option \<Rightarrow> DeSoMessage \<Rightarrow> ConnectionBridge \<Rightarrow> control \<times> ConnectionBridge" where
  "dispatch renv destination (MsgDeSoAddr bs) bridge = (Continue, bridge)"
| "dispatch renv destination MsgDeSoGetAddr bridge = (Continue, bridge)"
| "dispatch renv destination inMsg bridge = forward renv destination inMsg bridge"

text \<open>One iteration of the loop of \<^verbatim>\<open>routeTraffic\<close>.\<close>

definition routeStep ::
  "tick \<Rightarrow> restart_env \<Rightarrow> nat option \<Rightarrow> nat option \<Rightarrow> ConnectionBridge \<Rightarrow>
     control \<times> ConnectionBridge" where
  "routeStep t renv source destination bridge =
     (let bridge = bridge\<lparr>disabled := obs_disabled t, paused := obs_paused t\<rparr> in
      if disabled bridge then (Break, bridge)
      else if paused bridge then (Continue, bridge) \<comment> \<open>\<^verbatim>\<open>time.Sleep\<close>, then \<^verbatim>\<open>continue\<close>\<close>
      else
        (case source of
           None \<Rightarrow> (Stop Panicked, bridge)
         | Some s \<Rightarrow>
             (case peers bridge s of
                None \<Rightarrow> (Stop Panicked, bridge)
              | Some sp \<Rightarrow>
                  (case ReadDeSoMessage sp of
                     None \<Rightarrow> (Stop BlockedInRead, bridge)
                   | Some (r, sp) \<Rightarrow>
                       (let bridge = bridge\<lparr>peers := (peers bridge)(s := Some sp),
                                             disabled := obs_disabled_after t,
                                             paused := paused_after t\<rparr>
                        in if disabled bridge then (Break, bridge)
                           else (case r of
                                   Inl err \<Rightarrow> onReadError renv destination bridge
                                 | Inr inMsg \<Rightarrow> dispatch renv destination inMsg bridge))))))"

text \<open>
  The loop, run for as many iterations as the schedule has ticks (\<open>Looping\<close>: the task is
  still in its loop when the schedule ends). \<^verbatim>\<open>break\<close> leads to the statement after the
  loop, \<^verbatim>\<open>bridge.waitGroup.Done()\<close>.
\<close>

definition afterLoop :: "ConnectionBridge \<Rightarrow> router_end \<times> ConnectionBridge" where
  "afterLoop bridge =
     (case wgDone bridge of
        (Returns u, bridge) \<Rightarrow> (Exited, bridge)
      | (Panics, bridge) \<Rightarrow> (Panicked, bridge)
      | (Blocks, bridge) \<Rightarrow> (BlockedInWait, bridge))"

fun routeLoop ::
  "tick list \<Rightarrow> restart_env \<Rightarrow> nat option \<Rightarrow> nat option \<Rightarrow> ConnectionBridge \<Rightarrow>
     router_end \<times> ConnectionBridge" where
  "routeLoop [] renv source destination bridge = (Looping, bridge)"
| "routeLoop (t # ts) renv source destination bridge =
     (case routeStep t renv source destination bridge of
        (Continue, bridge) \<Rightarrow> routeLoop ts renv source destination bridge
      | (Break, bridge) \<Rightarrow> afterLoop bridge
      | (Stop e, bridge) \<Rightarrow> (e, bridge))"

definition routeTraffic ::
  "tick list \<Rightarrow> restart_env \<Rightarrow> nat option \<Rightarrow> nat option \<Rightarrow> ConnectionBridge \<Rightarrow>
     router_end \<times> ConnectionBridge" where
  "routeTraffic sched renv source destination bridge =
     routeLoop sched renv source destination (wgAdd bridge)"

section \<open>Notions used in the statements\<close>





text \<open>
  What the next read on a leg returns; \<open>None\<close> when the leg does not exist or the read never
  returns.
\<close>

definition next_read :: "ConnectionBridge \<Rightarrow> nat \<Rightarrow> (error + DeSoMessage) option" where
  "next_read b a =
     (case peers b a of None \<Rightarrow> None | Some p \<Rightarrow> map_option fst (next_arrival (incoming p)))"


text \<open>
  \<open>undisturbed b b'\<close>: from \<open>b\<close> to \<open>b'\<close> the flag, the launched tasks, the listeners and the
  inbound pointers are the same, no peer has vanished, and no peer has become disconnected.
\<close>

definition undisturbed :: "ConnectionBridge \<Rightarrow> ConnectionBridge \<Rightarrow> bool" where
  "undisturbed b b' \<longleftrightarrow>
     disabled b' = disabled b \<and> tasks b' = tasks b \<and>
     outboundListenerA b' = outboundListenerA b \<and>
     outboundListenerB b' = outboundListenerB b \<and>
     connectionInboundA b' = connectionInboundA b \<and>
     connectionInboundB b' = connectionInboundB b \<and>
     (\<forall>a. peers b a \<noteq> None \<longrightarrow> peers b' a \<noteq> None) \<and>
     (\<forall>a p'. peers b' a = Some p' \<longrightarrow> disconnected p' \<longrightarrow>
         (\<exists>p. peers b a = Some p \<and> disconnected p))"

section \<open>Concrete scenarios\<close>

text \<open>Two running nodes that differ in every field the handshake copies.\<close>

definition node_a :: Node where
  "node_a =
     \<lparr>Params = \<lparr>ProtocolVersion = 1, UserAgent = ''node-a''\<rparr>,
      Config = \<lparr>ProtocolPort = 17000, HyperSync = False, ArchivalMode = True, MinFeerate = 1000\<rparr>,
      Server = Some \<lparr>BlockTipHeight = 5\<rparr>\<rparr>"

definition node_b :: Node where
  "node_b =
     \<lparr>Params = \<lparr>ProtocolVersion = 2, UserAgent = ''node-b''\<rparr>,
      Config = \<lparr>ProtocolPort = 18000, HyperSync = True, ArchivalMode = True, MinFeerate = 2000\<rparr>,
      Server = Some \<lparr>BlockTipHeight = 7\<rparr>\<rparr>"

text \<open>A handshake with clock readings 100 and 101 and the nonce \<open>n\<close>.\<close>

definition hs :: "uint64 \<Rightarrow> hs_env" where
  "hs n = \<lparr>hs_now_sent = 100, hs_nonce = n, hs_now_recv = 101\<rparr>"

text \<open>The version message a real node answers with (its own nonce is \<open>n\<close>).\<close>

definition reply_version :: "uint64 \<Rightarrow> DeSoMessage" where
  "reply_version n = MsgVersion (NewVersionMessage\<lparr>TstampSecs := 105, Nonce := n\<rparr>)"

text \<open>A socket on which the given events arrive and every write succeeds.\<close>

definition leg :: "uint64 \<Rightarrow> rd_event list \<Rightarrow> leg_env" where
  "leg i es = \<lparr>le_id = i, le_incoming = es, le_wfail = []\<rparr>"

text \<open>
  A peer whose node answers the version message with a verack (the wrong kind) and then
  sends a verack carrying the nonce 42.
\<close>

definition wrong_kind_peer :: Peer where
  "wrong_kind_peer =
     NewPeer (leg 1 [Delivered (MsgDeSoVerack 7), Delivered (MsgDeSoVerack 42)]) True"

text \<open>
  The socket of a node that completes the handshake for the nonce \<open>n\<close> (it answers with its
  version message and then echoes \<open>n\<close> in its verack) and afterwards sends \<open>later\<close>; \<open>ws\<close>
  says which writes to it fail.
\<close>

definition good_leg :: "uint64 \<Rightarrow> uint64 \<Rightarrow> bool list \<Rightarrow> rd_event list \<Rightarrow> leg_env" where
  "good_leg i n ws later =
     \<lparr>le_id = i,
      le_incoming = [Delivered (reply_version (n + 1000)), Delivered (MsgDeSoVerack n)] @ later,
      le_wfail = ws\<rparr>"

text \<open>The peer such a socket leaves behind after a handshake impersonating \<open>node\<close>.\<close>

definition negotiated ::
  "uint64 \<Rightarrow> bool \<Rightarrow> Node \<Rightarrow> uint64 \<Rightarrow> bool list \<Rightarrow> rd_event list \<Rightarrow> Peer" where
  "negotiated i out node n ws later =
     \<lparr>ID = i, isOutbound = out, VersionNonceSent = n, VersionNonceReceived = n + 1000,
      TimeConnected = 105, TimeOffsetSecs = 4, VersionNegotiated = True, disconnected = False,
      incoming = later, wfail = drop 2 ws,
      sent = [MsgVersion (getVersionMessage node 100 n), MsgDeSoVerack (n + 1000)]\<rparr>"

text \<open>
  A run of \<^verbatim>\<open>Start\<close> in which everything succeeds. After the handshakes node A sends a
  message, an address list and another message on its inbound leg and one message on its
  outbound leg, node B closes its outbound socket, and the third write to node B's inbound
  leg fails.
\<close>

definition happy_env :: start_env where
  "happy_env =
     \<lparr>se_listenA = Some 40001, se_listenB = Some 40002,
      se_dialA = Some (good_leg 1 11 []
                   [Delivered (MsgOther 18 [7]), Delivered (MsgDeSoAddr [9]),
                    Delivered (MsgOther 19 [8])]),
      se_dialB = Some (good_leg 2 12 [False, False, True] []),
      se_hsInA = hs 11, se_hsInB = hs 12,
      se_acceptA = Some (5 * second, good_leg 3 13 [] [Delivered (MsgOther 17 [1, 2, 3])]),
      se_tieA = False,
      se_acceptB = Some (5 * second, good_leg 4 14 [] [Broken]),
      se_tieB = False,
      se_hsOutA = hs 13, se_hsOutB = hs 14\<rparr>"

text \<open>The same run when node A never dials the bridge's listener.\<close>

definition no_dial_env :: start_env where
  "no_dial_env = happy_env\<lparr>se_acceptA := None\<rparr>"

text \<open>The same run when node A echoes the nonce 999 instead of 11 on its inbound leg.\<close>

definition bad_nonce_env :: start_env where
  "bad_nonce_env =
     happy_env\<lparr>se_dialA :=
       Some (leg 1 [Delivered (reply_version 1011), Delivered (MsgDeSoVerack 999)])\<rparr>"

text \<open>
  The bridge after the successful run, once the three other routers have registered with the
  wait group.
\<close>

definition running_bridge :: ConnectionBridge where
  "running_bridge = (snd (Start happy_env (NewConnectionBridge node_a node_b)))\<lparr>waitGroup := 3\<rparr>"

text \<open>That bridge after a \<^verbatim>\<open>Disconnect\<close> during which the three routers finish.\<close>

definition stopped_bridge :: ConnectionBridge where
  "stopped_bridge = snd (Disconnect 3 running_bridge)"

text \<open>
  Iterations: one in which both flags stay false; one in which the router finds \<open>paused\<close>
  set; one in which \<open>disabled\<close> is set while the router waits in its read; and one in
  which \<open>paused\<close> is set while the router waits in its read.
\<close>

definition run_tick :: tick where
  "run_tick = \<lparr>obs_disabled = False, obs_paused = False, obs_disabled_after = False,
                paused_after = False\<rparr>"




text \<open>A restart during which the three other routers finish.\<close>

definition others_finish :: restart_env where
  "others_finish = \<lparr>re_released = 3, re_start = happy_env\<rparr>"

section \<open>Properties of the handshake\<close>

lemma getVersionMessage_fields:
  "getVersionMessage node now rnd =
     \<lparr>Version = ProtocolVersion (Params node),
      Services =
        (if HyperSync (Config node)
         then (if ArchivalMode (Config node)
               then {SFFullNode, SFHyperSync, SFArchivalNode}
               else {SFFullNode, SFHyperSync})
         else {SFFullNode}),
      TstampSecs = now,
      Nonce = rnd,
      MsgUserAgent = UserAgent (Params node),
      StartBlockHeight = (case Server node of Some srv \<Rightarrow> ucast (BlockTipHeight srv) | None \<Rightarrow> 0),
      MinFeeRateNanosPerKB = MinFeerate (Config node)\<rparr>"
  by (auto simp: getVersionMessage_def NewVersionMessage_def Let_def split: option.splits)

lemma getVersionMessage_Nonce: "Nonce (getVersionMessage node now rnd) = rnd"
  by (simp add: getVersionMessage_fields)

lemma WriteDeSoMessage_keeps:
  "WriteDeSoMessage p m = (r, p') \<Longrightarrow>
     VersionNonceSent p' = VersionNonceSent p \<and>
     VersionNonceReceived p' = VersionNonceReceived p \<and>
     VersionNegotiated p' = VersionNegotiated p \<and>
     disconnected p' = disconnected p \<and>
     incoming p' = incoming p"
  by (auto simp: WriteDeSoMessage_def split: list.splits if_splits)

lemma onVersionReply_keeps:
  "onVersionReply now x p = (r, p') \<Longrightarrow>
     VersionNonceSent p' = VersionNonceSent p \<and>
     VersionNegotiated p' = VersionNegotiated p \<and>
     disconnected p' = disconnected p \<and>
     incoming p' = incoming p \<and>
     sent p' = sent p \<and>
     wfail p' = wfail p"
  by (auto simp: onVersionReply_def split: sum.splits DeSoMessage.splits)

lemma onVerackReply_keeps: "onVerackReply x p = (r, p') \<Longrightarrow> p' = p"
  by (auto simp: onVerackReply_def split: sum.splits DeSoMessage.splits if_splits)

lemma ReadWithTimeout_version_keeps:
  "ReadWithTimeout (onVersionReply now) p = (r, p') \<Longrightarrow>
     VersionNonceSent p' = VersionNonceSent p \<and>
     VersionNegotiated p' = VersionNegotiated p \<and>
     disconnected p' = disconnected p \<and>
     sent p' = sent p \<and>
     wfail p' = wfail p"
  by (auto simp: ReadWithTimeout_def split: list.splits rd_event.splits
      dest!: onVersionReply_keeps)

lemma ReadWithTimeout_verack_keeps:
  "ReadWithTimeout onVerackReply p = (r, p') \<Longrightarrow>
     VersionNonceSent p' = VersionNonceSent p \<and>
     VersionNonceReceived p' = VersionNonceReceived p \<and>
     VersionNegotiated p' = VersionNegotiated p \<and>
     disconnected p' = disconnected p \<and>
     sent p' = sent p \<and>
     wfail p' = wfail p"
  by (auto simp: ReadWithTimeout_def split: list.splits rd_event.splits
      dest!: onVerackReply_keeps)

lemma startConnection_trace:
  obtains r1 c1 r2 c2 r3 c3 r4 c4 where
    "WriteDeSoMessage (c\<lparr>VersionNonceSent := hs_nonce env\<rparr>)
       (MsgVersion (getVersionMessage node (hs_now_sent env) (hs_nonce env))) = (r1, c1)"
    "ReadWithTimeout (onVersionReply (hs_now_recv env)) c1 = (r2, c2)"
    "WriteDeSoMessage c2 (MsgDeSoVerack (VersionNonceReceived c2)) = (r3, c3)"
    "ReadWithTimeout onVerackReply c3 = (r4, c4)"
    "startConnection c node env =
       (if r1 \<noteq> None then (r1, c1)
        else if r2 \<noteq> None then (r2, c2)
        else if r3 \<noteq> None then (r3, c3)
        else if r4 \<noteq> None then (r4, c4)
        else (None, c4\<lparr>VersionNegotiated := True\<rparr>))"
proof -
  let ?c0 = "c\<lparr>VersionNonceSent := hs_nonce env\<rparr>"
  let ?m = "MsgVersion (getVersionMessage node (hs_now_sent env) (hs_nonce env))"
  obtain r1 c1 where w1: "WriteDeSoMessage ?c0 ?m = (r1, c1)" by force
  obtain r2 c2 where rd1: "ReadWithTimeout (onVersionReply (hs_now_recv env)) c1 = (r2, c2)" by force
  obtain r3 c3 where w2: "WriteDeSoMessage c2 (MsgDeSoVerack (VersionNonceReceived c2)) = (r3, c3)" by force
  obtain r4 c4 where rd2: "ReadWithTimeout onVerackReply c3 = (r4, c4)" by force
  have "startConnection c node env =
       (if r1 \<noteq> None then (r1, c1)
        else if r2 \<noteq> None then (r2, c2)
        else if r3 \<noteq> None then (r3, c3)
        else if r4 \<noteq> None then (r4, c4)
        else (None, c4\<lparr>VersionNegotiated := True\<rparr>))"
    using w1 rd1 w2 rd2
    by (auto simp: startConnection_def Let_def getVersionMessage_Nonce split: option.splits)
  then show ?thesis using that w1 rd1 w2 rd2 by blast
qed

lemma startConnection_nonce:
  "VersionNonceSent (snd (startConnection c node env)) = hs_nonce env"
proof -
  obtain r1 c1 r2 c2 r3 c3 r4 c4 where
    w1: "WriteDeSoMessage (c\<lparr>VersionNonceSent := hs_nonce env\<rparr>)
       (MsgVersion (getVersionMessage node (hs_now_sent env) (hs_nonce env))) = (r1, c1)"
    and rd1: "ReadWithTimeout (onVersionReply (hs_now_recv env)) c1 = (r2, c2)"
    and w2: "WriteDeSoMessage c2 (MsgDeSoVerack (VersionNonceReceived c2)) = (r3, c3)"
    and rd2: "ReadWithTimeout onVerackReply c3 = (r4, c4)"
    and eq: "startConnection c node env =
       (if r1 \<noteq> None then (r1, c1)
        else if r2 \<noteq> None then (r2, c2)
        else if r3 \<noteq> None then (r3, c3)
        else if r4 \<noteq> None then (r4, c4)
        else (None, c4\<lparr>VersionNegotiated := True\<rparr>))"
    by (rule startConnection_trace)
  show ?thesis
    using WriteDeSoMessage_keeps[OF w1] ReadWithTimeout_version_keeps[OF rd1]
      WriteDeSoMessage_keeps[OF w2] ReadWithTimeout_verack_keeps[OF rd2]
    by (simp add: eq)
qed


lemma startConnection_error_keeps_flag:
  assumes "fst (startConnection c node env) = Some e"
  shows "VersionNegotiated (snd (startConnection c node env)) = VersionNegotiated c"
proof -
  obtain r1 c1 r2 c2 r3 c3 r4 c4 where
    w1: "WriteDeSoMessage (c\<lparr>VersionNonceSent := hs_nonce env\<rparr>)
       (MsgVersion (getVersionMessage node (hs_now_sent env) (hs_nonce env))) = (r1, c1)"
    and rd1: "ReadWithTimeout (onVersionReply (hs_now_recv env)) c1 = (r2, c2)"
    and w2: "WriteDeSoMessage c2 (MsgDeSoVerack (VersionNonceReceived c2)) = (r3, c3)"
    and rd2: "ReadWithTimeout onVerackReply c3 = (r4, c4)"
    and eq: "startConnection c node env =
       (if r1 \<noteq> None then (r1, c1)
        else if r2 \<noteq> None then (r2, c2)
        else if r3 \<noteq> None then (r3, c3)
        else if r4 \<noteq> None then (r4, c4)
        else (None, c4\<lparr>VersionNegotiated := True\<rparr>))"
    by (rule startConnection_trace)
  show ?thesis
    using assms WriteDeSoMessage_keeps[OF w1] ReadWithTimeout_version_keeps[OF rd1]
      WriteDeSoMessage_keeps[OF w2] ReadWithTimeout_verack_keeps[OF rd2]
    by (simp add: eq split: if_splits)
qed

lemma startConnection_ok_sets_flag:
  assumes "fst (startConnection c node env) = None"
  shows "VersionNegotiated (snd (startConnection c node env))"
proof -
  obtain r1 c1 r2 c2 r3 c3 r4 c4 where
    eq: "startConnection c node env =
       (if r1 \<noteq> None then (r1, c1)
        else if r2 \<noteq> None then (r2, c2)
        else if r3 \<noteq> None then (r3, c3)
        else if r4 \<noteq> None then (r4, c4)
        else (None, c4\<lparr>VersionNegotiated := True\<rparr>))"
    by (rule startConnection_trace)
  show ?thesis using assms by (auto simp: eq split: if_splits)
qed

lemma startConnection_keeps_disconnected:
  "disconnected (snd (startConnection c node env)) = disconnected c"
proof -
  obtain r1 c1 r2 c2 r3 c3 r4 c4 where
    w1: "WriteDeSoMessage (c\<lparr>VersionNonceSent := hs_nonce env\<rparr>)
       (MsgVersion (getVersionMessage node (hs_now_sent env) (hs_nonce env))) = (r1, c1)"
    and rd1: "ReadWithTimeout (onVersionReply (hs_now_recv env)) c1 = (r2, c2)"
    and w2: "WriteDeSoMessage c2 (MsgDeSoVerack (VersionNonceReceived c2)) = (r3, c3)"
    and rd2: "ReadWithTimeout onVerackReply c3 = (r4, c4)"
    and eq: "startConnection c node env =
       (if r1 \<noteq> None then (r1, c1)
        else if r2 \<noteq> None then (r2, c2)
        else if r3 \<noteq> None then (r3, c3)
        else if r4 \<noteq> None then (r4, c4)
        else (None, c4\<lparr>VersionNegotiated := True\<rparr>))"
    by (rule startConnection_trace)
  show ?thesis
    using WriteDeSoMessage_keeps[OF w1] ReadWithTimeout_version_keeps[OF rd1]
      WriteDeSoMessage_keeps[OF w2] ReadWithTimeout_verack_keeps[OF rd2]
    by (simp add: eq)
qed

lemma WriteDeSoMessage_sent:
  "WriteDeSoMessage p m = (r, p') \<Longrightarrow>
     (if (case wfail p of [] \<Rightarrow> False | f # fs \<Rightarrow> f)
      then r = Some ErrWrite \<and> sent p' = sent p
      else r = None \<and> sent p' = sent p @ [m])"
  by (auto simp: WriteDeSoMessage_def split: list.splits if_splits)

lemma startConnection_first_message:
  "if (case wfail c of [] \<Rightarrow> False | f # fs \<Rightarrow> f)
   then sent (snd (startConnection c node env)) = sent c
   else (\<exists>rest. sent (snd (startConnection c node env)) =
           sent c @ MsgVersion (getVersionMessage node (hs_now_sent env) (hs_nonce env)) # rest)"
proof -
  obtain r1 c1 r2 c2 r3 c3 r4 c4 where
    w1: "WriteDeSoMessage (c\<lparr>VersionNonceSent := hs_nonce env\<rparr>)
       (MsgVersion (getVersionMessage node (hs_now_sent env) (hs_nonce env))) = (r1, c1)"
    and rd1: "ReadWithTimeout (onVersionReply (hs_now_recv env)) c1 = (r2, c2)"
    and w2: "WriteDeSoMessage c2 (MsgDeSoVerack (VersionNonceReceived c2)) = (r3, c3)"
    and rd2: "ReadWithTimeout onVerackReply c3 = (r4, c4)"
    and eq: "startConnection c node env =
       (if r1 \<noteq> None then (r1, c1)
        else if r2 \<noteq> None then (r2, c2)
        else if r3 \<noteq> None then (r3, c3)
        else if r4 \<noteq> None then (r4, c4)
        else (None, c4\<lparr>VersionNegotiated := True\<rparr>))"
    by (rule startConnection_trace)
  have s3: "sent c3 = sent c2 \<or> sent c3 = sent c2 @ [MsgDeSoVerack (VersionNonceReceived c2)]"
    using WriteDeSoMessage_sent[OF w2] by (auto split: if_splits)
  show ?thesis
    using WriteDeSoMessage_sent[OF w1] ReadWithTimeout_version_keeps[OF rd1] s3
      ReadWithTimeout_verack_keeps[OF rd2]
    by (auto simp: eq split: if_splits)
qed

text \<open>
  C5 (as amended). The version message is a function of the impersonated node, the clock and
  one random number only. Protocol version, user agent and minimum fee rate are copied from
  the node; the service flags are full-node always, hypersync when the node enables hypersync,
  and archival when the node enables hypersync and archival mode together; the start height is
  the node's chain-tip height cut to 32 bits when the node has a server, and 0 otherwise; the
  nonce is the fresh random number. \<open>startConnection\<close> records that nonce as the leg's
  sent-nonce whatever happens afterwards, and nothing is written to the leg before the version
  message carrying it.
\<close>

theorem C5_version_message_of_impersonated_node:
  "getVersionMessage node now rnd =
     \<lparr>Version = ProtocolVersion (Params node),
      Services =
        (if HyperSync (Config node)
         then (if ArchivalMode (Config node)
               then {SFFullNode, SFHyperSync, SFArchivalNode}
               else {SFFullNode, SFHyperSync})
         else {SFFullNode}),
      TstampSecs = now,
      Nonce = rnd,
      MsgUserAgent = UserAgent (Params node),
      StartBlockHeight = (case Server node of Some srv \<Rightarrow> ucast (BlockTipHeight srv) | None \<Rightarrow> 0),
      MinFeeRateNanosPerKB = MinFeerate (Config node)\<rparr>
   \<and> VersionNonceSent (snd (startConnection c node env)) = hs_nonce env
   \<and> (if (case wfail c of [] \<Rightarrow> False | f # fs \<Rightarrow> f)
      then sent (snd (startConnection c node env)) = sent c
      else (\<exists>rest. sent (snd (startConnection c node env)) =
              sent c @ MsgVersion (getVersionMessage node (hs_now_sent env) (hs_nonce env)) # rest))"
  using getVersionMessage_fields[of node now rnd] startConnection_nonce[of c node env]
    startConnection_first_message[of c node env]
  by blast

text \<open>
  C5, counterexample to the claim as stated: \<open>node_a\<close> enables archival mode (without
  hypersync), and the version message synthesized for it does not carry the archival flag.
\<close>

theorem C5_archival_flag_counterexample:
  "ArchivalMode (Config node_a) \<and> SFArchivalNode \<notin> Services (getVersionMessage node_a 100 42)"
  by (simp add: getVersionMessage_fields node_a_def)

subsection \<open>How a handshake ends\<close>

text \<open>
  On a leg whose writes succeed: a verack with another nonce than the one sent, a second reply
  that is not a verack, and a silence at either wait each end the handshake with an error.
  A first reply that is not a version message does not: if the verack that follows carries
  the sent nonce, the handshake succeeds.
\<close>

lemmas handshake_defs =
  startConnection_def Let_def getVersionMessage_Nonce WriteDeSoMessage_def ReadWithTimeout_def
  onVersionReply_def onVerackReply_def

lemma startConnection_nonce_mismatch:
  assumes "wfail c = []"
    and "incoming c = Delivered (MsgVersion v) # Delivered (MsgDeSoVerack n) # rest"
    and "n \<noteq> hs_nonce env"
  shows "fst (startConnection c node env) = Some (ErrNonce n (hs_nonce env))"
  using assms by (simp add: handshake_defs)

lemma startConnection_second_reply_wrong_kind:
  assumes "wfail c = []"
    and "incoming c = Delivered (MsgVersion v) # Delivered m # rest"
    and "GetMsgType m \<noteq> MsgTypeVerack"
  shows "fst (startConnection c node env) = Some (ErrNotVerack (GetMsgType m))"
  using assms by (simp add: handshake_defs)

lemma startConnection_first_wait_times_out:
  assumes "wfail c = []" and "incoming c = [] \<or> (\<exists>rest. incoming c = Silent # rest)"
  shows "fst (startConnection c node env) = Some ErrReadTimeout"
  using assms by (auto simp: handshake_defs)

lemma startConnection_second_wait_times_out:
  assumes "wfail c = []"
    and "incoming c = [Delivered (MsgVersion v)] \<or>
         (\<exists>rest. incoming c = Delivered (MsgVersion v) # Silent # rest)"
  shows "fst (startConnection c node env) = Some ErrReadTimeout"
  using assms by (auto simp: handshake_defs)

lemma startConnection_first_reply_wrong_kind:
  assumes "wfail c = []"
    and "incoming c = Delivered m # Delivered (MsgDeSoVerack (hs_nonce env)) # rest"
    and "GetMsgType m \<noteq> MsgTypeVersion"
  shows "fst (startConnection c node env) = None"
    and "VersionNegotiated (snd (startConnection c node env))"
    and "VersionNonceReceived (snd (startConnection c node env)) = VersionNonceReceived c"
  using assms by (cases m; simp add: handshake_defs)+

text \<open>
  C2, the code at the failing input: the node answers the version message with a verack, a
  message of the wrong kind, and then sends a verack with the nonce that was sent. The
  handshake returns no error and marks the leg negotiated, although no version message was
  ever received (the received nonce is still 0).
\<close>

theorem C2_wrong_kind_reply_is_accepted:
  "fst (startConnection wrong_kind_peer node_b (hs 42)) = None
   \<and> VersionNegotiated (snd (startConnection wrong_kind_peer node_b (hs 42)))
   \<and> VersionNonceReceived (snd (startConnection wrong_kind_peer node_b (hs 42))) = 0"
  by (simp add: startConnection_def wrong_kind_peer_def NewPeer_def leg_def hs_def Let_def
      getVersionMessage_fields WriteDeSoMessage_def ReadWithTimeout_def onVersionReply_def
      onVerackReply_def)

section \<open>Properties of Start\<close>

lemma waitForConnection_no_offer:
  "waitForConnection None tie bridge = (Returns (Inl ErrTimedOut, 30 * second), bridge)"
  by (simp add: waitForConnection_def)

lemma second_pos: "0 < second"
  by (simp add: second_def)

lemma startConnection_good_leg:
  "\<not> (case ws of [] \<Rightarrow> False | f # fs \<Rightarrow> f \<or> (case fs of [] \<Rightarrow> False | g # gs \<Rightarrow> g)) \<Longrightarrow>
   startConnection (NewPeer (good_leg i n ws later) out) node (hs n) =
     (None, negotiated i out node n ws later)"
  by (auto simp: startConnection_def NewPeer_def good_leg_def hs_def Let_def reply_version_def
      getVersionMessage_Nonce WriteDeSoMessage_def ReadWithTimeout_def onVersionReply_def
      onVerackReply_def negotiated_def split: list.splits)

text \<open>When both inbound handshakes succeed, \<open>Start\<close> goes on to the outbound legs.\<close>

lemma Start_inbound_ok:
  assumes "se_listenA env = Some pa" and "se_listenB env = Some pb"
    and "se_dialA env = Some la" and "se_dialB env = Some lb"
    and "startConnection (NewPeer la True) (nodeB bridge) (se_hsInA env) = (None, ca)"
    and "startConnection (NewPeer lb True) (nodeA bridge) (se_hsInB env) = (None, cb)"
  shows "Start env bridge =
     Start_outbound env
       (bridge\<lparr>disabled := False,
               outboundListenerA := Some \<lparr>l_port = pa, l_open = True\<rparr>,
               outboundListenerB := Some \<lparr>l_port = pb, l_open = True\<rparr>,
               connectionInboundA := Some (next_peer bridge),
               next_peer := Suc (Suc (next_peer bridge)),
               connectionInboundB := Some (Suc (next_peer bridge)),
               peers := (peers bridge)(next_peer bridge := Some ca,
                                       Suc (next_peer bridge) := Some cb)\<rparr>)"
  using assms
  by (simp add: Start_def Let_def createInboundConnection_def alloc_def
      Start_inbound_handshakes_def startConnectionAt_def)

lemma Start_outbound_timeout_A:
  assumes "se_acceptA env = None" and "outboundListenerA b = Some l"
    and "Server (nodeA b) = Some sa"
  shows "Start_outbound env b = (Returns (Some ErrTimedOut), b\<lparr>connectionOutboundA := None\<rparr>)"
  using assms
  by (simp add: Start_outbound_def createOutboundConnection_def waitForConnection_def)

lemma Start_outbound_B_timeout:
  assumes "se_acceptB env = None" and "outboundListenerB b = Some l"
    and "Server (nodeB b) = Some sb"
  shows "Start_outbound_B env b = (Returns (Some ErrTimedOut), b\<lparr>connectionOutboundB := None\<rparr>)"
  using assms
  by (simp add: Start_outbound_B_def createOutboundConnection_def waitForConnection_def)

lemma Start_outbound_timeout_B:
  assumes "se_acceptA env = Some (t, le)" and "t < 30 * second" and "se_acceptB env = None"
    and "outboundListenerA b = Some \<lparr>l_port = pa, l_open = True\<rparr>"
    and "outboundListenerB b = Some l"
    and "Server (nodeA b) = Some sa" and "Server (nodeB b) = Some sb"
  shows "fst (Start_outbound env b) = Returns (Some ErrTimedOut)
     \<and> tasks (snd (Start_outbound env b)) = tasks b"
proof -
  obtain a b1 where al: "alloc (NewPeer le False) b = (a, b1)" by force
  have b1: "outboundListenerB b1 = Some l" "Server (nodeB b1) = Some sb" "tasks b1 = tasks b"
    using al assms(5,7) by (auto simp: alloc_def)
  have "Start_outbound env b = Start_outbound_B env (b1\<lparr>connectionOutboundA := Some a\<rparr>)"
    using assms(1,2,4,6,7) al
    by (simp add: Start_outbound_def createOutboundConnection_def waitForConnection_def)
  then show ?thesis
    using Start_outbound_B_timeout[of env "b1\<lparr>connectionOutboundA := Some a\<rparr>" l sb] assms(3) b1
    by simp
qed

text \<open>
  C7. With no peer offered on the channel, \<open>waitForConnection\<close> returns the timeout error
  after 30 seconds, the duration of its ticker. In a run of \<open>Start\<close> that reaches one of its
  two waits and gets no peer there, \<open>Start\<close> returns that error and has launched no router
  task. The run reaches the first wait when both listeners open, both dials succeed, both
  inbound handshakes succeed and node A has a server to dial out with; it reaches the second
  wait when moreover the first peer arrives in time and node B has a server too.
\<close>

theorem C7_acquisition_timeout:
  "waitForConnection None tie bridge = (Returns (Inl ErrTimedOut, 30 * second), bridge)
   \<and> (se_listenA env = Some pa \<and> se_listenB env = Some pb
      \<and> se_dialA env = Some la \<and> se_dialB env = Some lb
      \<and> fst (startConnection (NewPeer la True) (nodeB bridge) (se_hsInA env)) = None
      \<and> fst (startConnection (NewPeer lb True) (nodeA bridge) (se_hsInB env)) = None
      \<and> Server (nodeA bridge) \<noteq> None
      \<and> (se_acceptA env = None
          \<or> (\<exists>t le. se_acceptA env = Some (t, le) \<and> t < 30 * second \<and> se_acceptB env = None
                \<and> Server (nodeB bridge) \<noteq> None))
      \<longrightarrow> fst (Start env bridge) = Returns (Some ErrTimedOut)
          \<and> tasks (snd (Start env bridge)) = tasks bridge)"
proof (intro conjI impI)
  show "waitForConnection None tie bridge = (Returns (Inl ErrTimedOut, 30 * second), bridge)"
    by (rule waitForConnection_no_offer)
next
  assume H: "se_listenA env = Some pa \<and> se_listenB env = Some pb
      \<and> se_dialA env = Some la \<and> se_dialB env = Some lb
      \<and> fst (startConnection (NewPeer la True) (nodeB bridge) (se_hsInA env)) = None
      \<and> fst (startConnection (NewPeer lb True) (nodeA bridge) (se_hsInB env)) = None
      \<and> Server (nodeA bridge) \<noteq> None
      \<and> (se_acceptA env = None
          \<or> (\<exists>t le. se_acceptA env = Some (t, le) \<and> t < 30 * second \<and> se_acceptB env = None
                \<and> Server (nodeB bridge) \<noteq> None))"
  obtain ca where ca: "startConnection (NewPeer la True) (nodeB bridge) (se_hsInA env) = (None, ca)"
    using H by (cases "startConnection (NewPeer la True) (nodeB bridge) (se_hsInA env)") auto
  obtain cb where cb: "startConnection (NewPeer lb True) (nodeA bridge) (se_hsInB env) = (None, cb)"
    using H by (cases "startConnection (NewPeer lb True) (nodeA bridge) (se_hsInB env)") auto
  obtain sa where sa: "Server (nodeA bridge) = Some sa" using H by auto
  obtain b where eq: "Start env bridge = Start_outbound env b"
    and tb: "tasks b = tasks bridge"
    and lA: "outboundListenerA b = Some \<lparr>l_port = pa, l_open = True\<rparr>"
    and lB: "outboundListenerB b = Some \<lparr>l_port = pb, l_open = True\<rparr>"
    and nA: "nodeA b = nodeA bridge" and nB: "nodeB b = nodeB bridge"
    using Start_inbound_ok[OF _ _ _ _ ca cb, of pa pb] H by simp
  from H have "se_acceptA env = None
          \<or> (\<exists>t le. se_acceptA env = Some (t, le) \<and> t < 30 * second \<and> se_acceptB env = None
                \<and> Server (nodeB bridge) \<noteq> None)"
    by blast
  then have "fst (Start env bridge) = Returns (Some ErrTimedOut)
          \<and> tasks (snd (Start env bridge)) = tasks bridge"
  proof
    assume "se_acceptA env = None"
    then show ?thesis using tb lA sa nA
      by (simp add: eq Start_outbound_timeout_A[where sa = sa])
  next
    assume "\<exists>t le. se_acceptA env = Some (t, le) \<and> t < 30 * second \<and> se_acceptB env = None
                \<and> Server (nodeB bridge) \<noteq> None"
    then obtain t le sb where "se_acceptA env = Some (t, le)" "t < 30 * second"
      "se_acceptB env = None" "Server (nodeB bridge) = Some sb"
      by auto
    then show ?thesis using tb lA lB sa nA nB
      by (simp add: eq Start_outbound_timeout_B[where pa = pa and t = t and le = le
            and sa = sa and sb = sb])
  qed
  then show "fst (Start env bridge) = Returns (Some ErrTimedOut)"
    and "tasks (snd (Start env bridge)) = tasks bridge" by simp_all
qed

text \<open>C7 at a run in which node A, a running node, never dials the listener.\<close>

theorem C7_acquisition_timeout_witness:
  "waitForConnection None False (NewConnectionBridge node_a node_b) =
     (Returns (Inl ErrTimedOut, 30 * second), NewConnectionBridge node_a node_b)
   \<and> se_acceptA no_dial_env = None
   \<and> Server (nodeA (NewConnectionBridge node_a node_b)) = Some \<lparr>BlockTipHeight = 5\<rparr>
   \<and> fst (Start no_dial_env (NewConnectionBridge node_a node_b)) = Returns (Some ErrTimedOut)
   \<and> tasks (snd (Start no_dial_env (NewConnectionBridge node_a node_b))) = []"
  using C7_acquisition_timeout[where tie = False and bridge = "NewConnectionBridge node_a node_b"
      and env = no_dial_env and pa = 40001 and pb = 40002
      and la = "good_leg 1 11 [] [Delivered (MsgOther 18 [7]), Delivered (MsgDeSoAddr [9]),
                    Delivered (MsgOther 19 [8])]"
      and lb = "good_leg 2 12 [False, False, True] []"]
  by (simp add: no_dial_env_def happy_env_def NewConnectionBridge_def startConnection_good_leg
      node_a_def)

subsection \<open>A failed Start cleans nothing up\<close>

lemma undisturbed_refl: "undisturbed b b"
  by (simp add: undisturbed_def)

lemma undisturbed_trans: "undisturbed a b \<Longrightarrow> undisturbed b c \<Longrightarrow> undisturbed a c"
  unfolding undisturbed_def by (intro conjI; (simp; fail | metis))

lemma undisturbed_outA: "undisturbed b (b\<lparr>connectionOutboundA := x\<rparr>)"
  by (simp add: undisturbed_def)

lemma undisturbed_outB: "undisturbed b (b\<lparr>connectionOutboundB := x\<rparr>)"
  by (simp add: undisturbed_def)

lemma undisturbed_alloc:
  "\<not> disconnected p \<Longrightarrow> undisturbed b (snd (alloc p b))"
  by (simp add: undisturbed_def alloc_def)

lemma NewPeer_connected: "\<not> disconnected (NewPeer le out)"
  by (simp add: NewPeer_def)

lemma undisturbed_startConnectionAt:
  "undisturbed b (snd (startConnectionAt c node env b))"
  using startConnection_keeps_disconnected
  by (auto simp: startConnectionAt_def undisturbed_def split_beta split: option.splits)

lemma undisturbed_waitForConnection:
  assumes "\<And>t p. pending_offer = Some (t, Offers p) \<Longrightarrow> \<not> disconnected p"
  shows "undisturbed b (snd (waitForConnection pending_offer tie b))"
  using assms
  by (auto simp: waitForConnection_def split_beta undisturbed_refl undisturbed_alloc
      split: option.splits handoff.splits)

lemma createOutboundConnection_connected:
  "createOutboundConnection n m l acc = Returns (Some (t, Offers p)) \<Longrightarrow> \<not> disconnected p"
  by (auto simp: createOutboundConnection_def NewPeer_connected
      split: if_splits option.splits)

lemma Start_outbound_handshakes_fail:
  assumes "Start_outbound_handshakes env b = (r, b')" and "r \<noteq> Returns None"
  shows "undisturbed b b'"
proof -
  obtain r1 b1 where s1:
    "startConnectionAt (connectionOutboundA b) (nodeB b) (se_hsOutA env) b = (r1, b1)" by force
  obtain r2 b2 where s2:
    "startConnectionAt (connectionOutboundB b1) (nodeB b1) (se_hsOutB env) b1 = (r2, b2)" by force
  have u1: "undisturbed b b1" using undisturbed_startConnectionAt[of b] s1 by (metis snd_conv)
  have u2: "undisturbed b1 b2" using undisturbed_startConnectionAt[of b1] s2 by (metis snd_conv)
  show ?thesis
  proof (cases "r1 = Returns None")
    case False
    then have "b' = b1" using assms s1
      by (auto simp: Start_outbound_handshakes_def split: outcome.splits option.splits)
    then show ?thesis using u1 by simp
  next
    case True
    then have "b' = b2" using assms s1 s2
      by (auto simp: Start_outbound_handshakes_def Start_routing_def
          split: outcome.splits option.splits)
    then show ?thesis using undisturbed_trans[OF u1 u2] by simp
  qed
qed

lemma Start_outbound_B_fail:
  assumes "Start_outbound_B env b = (r, b')" and "r \<noteq> Returns None"
  shows "undisturbed b b'"
proof (cases "outboundListenerB b")
  case None
  then show ?thesis using assms by (simp add: Start_outbound_B_def undisturbed_refl)
next
  case (Some lB)
  show ?thesis
  proof (cases "createOutboundConnection (nodeB b) (nodeA b) lB (se_acceptB env)")
    case Panics
    then show ?thesis using assms Some by (simp add: Start_outbound_B_def undisturbed_refl)
  next
    case Blocks
    then show ?thesis using assms Some by (simp add: Start_outbound_B_def undisturbed_refl)
  next
    case (Returns po)
    obtain x b1 where w: "waitForConnection po (se_tieB env) b = (x, b1)" by force
    have u1: "undisturbed b b1"
      using undisturbed_waitForConnection[of po b "se_tieB env"] w
      by (metis Returns createOutboundConnection_connected snd_conv)
    show ?thesis
    proof (cases x)
      case Panics
      then show ?thesis using assms Some Returns w u1 by (simp add: Start_outbound_B_def)
    next
      case Blocks
      then show ?thesis using assms Some Returns w u1 by (simp add: Start_outbound_B_def)
    next
      case (Returns y)
      obtain z t where y: "y = (z, t)" by force
      show ?thesis
      proof (cases z)
        case (Inl e)
        then have "b' = b1\<lparr>connectionOutboundB := None\<rparr>"
          using assms Some \<open>createOutboundConnection (nodeB b) (nodeA b) lB (se_acceptB env) = Returns po\<close>
            w Returns y by (simp add: Start_outbound_B_def)
        then show ?thesis using undisturbed_trans[OF u1 undisturbed_outB] by simp
      next
        case (Inr pB)
        then have "Start_outbound_handshakes env (b1\<lparr>connectionOutboundB := Some pB\<rparr>) = (r, b')"
          using assms Some \<open>createOutboundConnection (nodeB b) (nodeA b) lB (se_acceptB env) = Returns po\<close>
            w Returns y by (simp add: Start_outbound_B_def)
        from Start_outbound_handshakes_fail[OF this assms(2)]
        show ?thesis
          using undisturbed_trans[OF u1 undisturbed_outB] undisturbed_trans by blast
      qed
    qed
  qed
qed

lemma Start_outbound_fail:
  assumes "Start_outbound env b = (r, b')" and "r \<noteq> Returns None"
  shows "undisturbed b b'"
proof (cases "outboundListenerA b")
  case None
  then show ?thesis using assms by (simp add: Start_outbound_def undisturbed_refl)
next
  case (Some lA)
  show ?thesis
  proof (cases "createOutboundConnection (nodeA b) (nodeB b) lA (se_acceptA env)")
    case Panics
    then show ?thesis using assms Some by (simp add: Start_outbound_def undisturbed_refl)
  next
    case Blocks
    then show ?thesis using assms Some by (simp add: Start_outbound_def undisturbed_refl)
  next
    case (Returns po)
    obtain x b1 where w: "waitForConnection po (se_tieA env) b = (x, b1)" by force
    have u1: "undisturbed b b1"
      using undisturbed_waitForConnection[of po b "se_tieA env"] w
      by (metis Returns createOutboundConnection_connected snd_conv)
    show ?thesis
    proof (cases x)
      case Panics
      then show ?thesis using assms Some Returns w u1 by (simp add: Start_outbound_def)
    next
      case Blocks
      then show ?thesis using assms Some Returns w u1 by (simp add: Start_outbound_def)
    next
      case (Returns y)
      obtain z t where y: "y = (z, t)" by force
      show ?thesis
      proof (cases z)
        case (Inl e)
        then have "b' = b1\<lparr>connectionOutboundA := None\<rparr>"
          using assms Some \<open>createOutboundConnection (nodeA b) (nodeB b) lA (se_acceptA env) = Returns po\<close>
            w Returns y by (simp add: Start_outbound_def)
        then show ?thesis using undisturbed_trans[OF u1 undisturbed_outA] by simp
      next
        case (Inr pA)
        then have "Start_outbound_B env (b1\<lparr>connectionOutboundA := Some pA\<rparr>) = (r, b')"
          using assms Some \<open>createOutboundConnection (nodeA b) (nodeB b) lA (se_acceptA env) = Returns po\<close>
            w Returns y by (simp add: Start_outbound_def)
        from Start_outbound_B_fail[OF this assms(2)]
        show ?thesis
          using undisturbed_trans[OF u1 undisturbed_outA] undisturbed_trans by blast
      qed
    qed
  qed
qed

lemma Start_inbound_handshakes_fail:
  assumes "Start_inbound_handshakes env b = (r, b')" and "r \<noteq> Returns None"
  shows "undisturbed b b'"
proof -
  obtain r1 b1 where s1:
    "startConnectionAt (connectionInboundA b) (nodeB b) (se_hsInA env) b = (r1, b1)" by force
  obtain r2 b2 where s2:
    "startConnectionAt (connectionInboundB b1) (nodeA b1) (se_hsInB env) b1 = (r2, b2)" by force
  have u1: "undisturbed b b1" using undisturbed_startConnectionAt[of b] s1 by (metis snd_conv)
  have u2: "undisturbed b1 b2" using undisturbed_startConnectionAt[of b1] s2 by (metis snd_conv)
  show ?thesis
  proof (cases "r1 = Returns None")
    case False
    then have "b' = b1" using assms s1
      by (auto simp: Start_inbound_handshakes_def split: outcome.splits option.splits)
    then show ?thesis using u1 by simp
  next
    case True
    show ?thesis
    proof (cases "r2 = Returns None")
      case False
      then have "b' = b2" using assms s1 s2 True
        by (auto simp: Start_inbound_handshakes_def split: outcome.splits option.splits)
      then show ?thesis using undisturbed_trans[OF u1 u2] by simp
    next
      case r2: True
      then have "Start_outbound env b2 = (r, b')" using assms s1 s2 True
        by (simp add: Start_inbound_handshakes_def)
      from Start_outbound_fail[OF this assms(2)]
      show ?thesis using undisturbed_trans[OF u1 u2] undisturbed_trans by blast
    qed
  qed
qed

lemma Start_returns_mid:
  assumes "Start env bridge = (Returns x, bridge')"
  obtains mid pa pb la lb where
    "Start_inbound_handshakes env mid = (Returns x, bridge')"
    "\<not> disabled mid" "tasks mid = tasks bridge"
    "outboundListenerA mid = Some \<lparr>l_port = pa, l_open = True\<rparr>"
    "outboundListenerB mid = Some \<lparr>l_port = pb, l_open = True\<rparr>"
    "connectionInboundA mid = Some (next_peer bridge)"
    "connectionInboundB mid = Some (Suc (next_peer bridge))"
    "peers mid = (peers bridge)(next_peer bridge := Some (NewPeer la True),
                                Suc (next_peer bridge) := Some (NewPeer lb True))"
proof -
  obtain pa where pa: "se_listenA env = Some pa"
    using assms by (cases "se_listenA env") (auto simp: Start_def Let_def)
  obtain pb where pb: "se_listenB env = Some pb"
    using assms pa by (cases "se_listenB env") (auto simp: Start_def Let_def)
  obtain la where la: "se_dialA env = Some la"
    using assms pa pb
    by (cases "se_dialA env") (auto simp: Start_def Let_def createInboundConnection_def)
  obtain lb where lb: "se_dialB env = Some lb"
    using assms pa pb la
    by (cases "se_dialB env")
      (auto simp: Start_def Let_def createInboundConnection_def alloc_def)
  define b0 where "b0 = bridge\<lparr>disabled := False,
                outboundListenerA := Some \<lparr>l_port = pa, l_open = True\<rparr>,
                outboundListenerB := Some \<lparr>l_port = pb, l_open = True\<rparr>\<rparr>"
  define b1 where "b1 = (snd (alloc (NewPeer la True) b0))
                \<lparr>connectionInboundA := Some (fst (alloc (NewPeer la True) b0))\<rparr>"
  define mid where "mid = (snd (alloc (NewPeer lb True) b1))
                \<lparr>connectionInboundB := Some (fst (alloc (NewPeer lb True) b1))\<rparr>"
  have "Start env bridge = Start_inbound_handshakes env mid"
    using pa pb la lb
    by (simp add: Start_def Let_def createInboundConnection_def split_beta mid_def b1_def b0_def)
  then have "Start_inbound_handshakes env mid = (Returns x, bridge')" using assms by simp
  then show ?thesis
    by (rule that[where pa = pa and pb = pb and la = la and lb = lb])
      (simp_all add: mid_def b1_def b0_def alloc_def)
qed

text \<open>
  C8. When \<open>Start\<close> returns an error, the \<open>disabled\<close> flag is false, no router task has been
  launched, both listeners opened by this run are still open, both inbound legs created by
  this run exist and are not disconnected, and no peer at all has been disconnected by the
  run: a peer that is disconnected afterwards was already disconnected before.
\<close>

theorem C8_failed_Start_leaves_resources:
  assumes "Start env bridge = (Returns (Some err), bridge')"
  shows "\<not> disabled bridge'
     \<and> tasks bridge' = tasks bridge
     \<and> (\<exists>pa pb. outboundListenerA bridge' = Some \<lparr>l_port = pa, l_open = True\<rparr>
               \<and> outboundListenerB bridge' = Some \<lparr>l_port = pb, l_open = True\<rparr>)
     \<and> (\<exists>a b ca cb. connectionInboundA bridge' = Some a \<and> connectionInboundB bridge' = Some b
               \<and> peers bridge' a = Some ca \<and> \<not> disconnected ca
               \<and> peers bridge' b = Some cb \<and> \<not> disconnected cb)
     \<and> (\<forall>a p'. peers bridge' a = Some p' \<and> disconnected p' \<longrightarrow>
            (\<exists>p. peers bridge a = Some p \<and> disconnected p))"
proof -
  obtain mid pa pb la lb where mid: "Start_inbound_handshakes env mid = (Returns (Some err), bridge')"
    and m: "\<not> disabled mid" "tasks mid = tasks bridge"
    "outboundListenerA mid = Some \<lparr>l_port = pa, l_open = True\<rparr>"
    "outboundListenerB mid = Some \<lparr>l_port = pb, l_open = True\<rparr>"
    "connectionInboundA mid = Some (next_peer bridge)"
    "connectionInboundB mid = Some (Suc (next_peer bridge))"
    and pm: "peers mid = (peers bridge)(next_peer bridge := Some (NewPeer la True),
                                Suc (next_peer bridge) := Some (NewPeer lb True))"
    using Start_returns_mid[OF assms] by blast
  have u: "undisturbed mid bridge'"
    by (rule Start_inbound_handshakes_fail[OF mid]) simp
  have d: "\<not> disabled bridge'" and t: "tasks bridge' = tasks bridge"
    and lA: "outboundListenerA bridge' = Some \<lparr>l_port = pa, l_open = True\<rparr>"
    and lB: "outboundListenerB bridge' = Some \<lparr>l_port = pb, l_open = True\<rparr>"
    and iA: "connectionInboundA bridge' = Some (next_peer bridge)"
    and iB: "connectionInboundB bridge' = Some (Suc (next_peer bridge))"
    using u m by (simp_all add: undisturbed_def)
  have ex: "\<And>a. peers mid a \<noteq> None \<Longrightarrow> peers bridge' a \<noteq> None"
    using u unfolding undisturbed_def by blast
  have dis: "\<And>a p'. peers bridge' a = Some p' \<Longrightarrow> disconnected p' \<Longrightarrow>
      \<exists>p. peers mid a = Some p \<and> disconnected p"
    using u unfolding undisturbed_def by blast
  obtain ca where ca: "peers bridge' (next_peer bridge) = Some ca"
    using ex[of "next_peer bridge"] by (auto simp: pm)
  obtain cb where cb: "peers bridge' (Suc (next_peer bridge)) = Some cb"
    using ex[of "Suc (next_peer bridge)"] by (auto simp: pm)
  have nca: "\<not> disconnected ca" using dis[OF ca] by (auto simp: pm NewPeer_connected)
  have ncb: "\<not> disconnected cb" using dis[OF cb] by (auto simp: pm NewPeer_connected)
  have old: "\<forall>a p'. peers bridge' a = Some p' \<and> disconnected p' \<longrightarrow>
            (\<exists>p. peers bridge a = Some p \<and> disconnected p)"
  proof (intro allI impI)
    fix a p' assume "peers bridge' a = Some p' \<and> disconnected p'"
    then obtain p where "peers mid a = Some p" "disconnected p" using dis by blast
    then show "\<exists>p. peers bridge a = Some p \<and> disconnected p"
      by (auto simp: pm NewPeer_connected split: if_splits)
  qed
  show ?thesis using d t lA lB iA iB ca cb nca ncb old by blast
qed


lemma Start_bad_nonce:
  "fst (Start bad_nonce_env (NewConnectionBridge node_a node_b)) = Returns (Some (ErrNonce 999 11))"
  by (simp add: Start_def bad_nonce_env_def happy_env_def NewConnectionBridge_def Let_def
      createInboundConnection_def alloc_def Start_inbound_handshakes_def startConnectionAt_def
      startConnection_def NewPeer_def leg_def hs_def reply_version_def getVersionMessage_Nonce
      WriteDeSoMessage_def ReadWithTimeout_def onVersionReply_def onVerackReply_def)

text \<open>C8 at a run in which the first inbound handshake fails on the verack's nonce.\<close>

theorem C8_failed_Start_leaves_resources_witness:
  "Start bad_nonce_env (NewConnectionBridge node_a node_b) =
     (Returns (Some (ErrNonce 999 11)), snd (Start bad_nonce_env (NewConnectionBridge node_a node_b)))
   \<and> \<not> disabled (snd (Start bad_nonce_env (NewConnectionBridge node_a node_b)))
   \<and> tasks (snd (Start bad_nonce_env (NewConnectionBridge node_a node_b))) = []"
proof -
  have h: "Start bad_nonce_env (NewConnectionBridge node_a node_b) =
     (Returns (Some (ErrNonce 999 11)), snd (Start bad_nonce_env (NewConnectionBridge node_a node_b)))"
    using Start_bad_nonce by (metis prod.collapse)
  show ?thesis
    using h C8_failed_Start_leaves_resources[OF h] by (simp add: NewConnectionBridge_def)
qed

subsection \<open>The identities impersonated by Start\<close>

lemma Start_happy:
  "Start happy_env (NewConnectionBridge node_a node_b) =
     (Returns None,
      \<lparr>nodeA = node_a, connectionInboundA = Some 0, connectionOutboundA = Some 2,
       outboundListenerA = Some \<lparr>l_port = 40001, l_open = True\<rparr>,
       nodeB = node_b, connectionInboundB = Some 1, connectionOutboundB = Some 3,
       outboundListenerB = Some \<lparr>l_port = 40002, l_open = True\<rparr>,
       paused = False, disabled = False, waitGroup = 0, connectionAttempt = 0,
       peers = (\<lambda>a. None)
         (0 := Some (negotiated 1 True node_b 11 []
                   [Delivered (MsgOther 18 [7]), Delivered (MsgDeSoAddr [9]),
                    Delivered (MsgOther 19 [8])]),
          1 := Some (negotiated 2 True node_a 12 [False, False, True] []),
          2 := Some (negotiated 3 False node_b 13 [] [Delivered (MsgOther 17 [1, 2, 3])]),
          3 := Some (negotiated 4 False node_b 14 [] [Broken])),
       next_peer = 4,
       tasks = [(Some 2, Some 1), (Some 1, Some 2), (Some 3, Some 0), (Some 0, Some 3)]\<rparr>)"
proof -
  have srv: "Server node_a = Some \<lparr>BlockTipHeight = 5\<rparr>" "Server node_b = Some \<lparr>BlockTipHeight = 7\<rparr>"
    by (simp_all add: node_a_def node_b_def)
  show ?thesis
    by (simp add: Start_def happy_env_def NewConnectionBridge_def Let_def
        createInboundConnection_def alloc_def Start_inbound_handshakes_def startConnectionAt_def
        startConnection_good_leg Start_outbound_def Start_outbound_B_def
        createOutboundConnection_def srv
        waitForConnection_def second_pos Start_outbound_handshakes_def Start_routing_def
        fun_upd_twist numeral_2_eq_2 numeral_3_eq_3)
qed

text \<open>
  C1, the code at the failing input: a run of \<open>Start\<close> on two different running nodes (each
  has its server) in which all four handshakes succeed. The version message written to
  \<open>connectionOutboundB\<close>, the leg on which node B has dialled out, is the one synthesized
  from node B itself (user agent \<open>node-b\<close>), not from node A. The other three legs carry the
  opposite node's identity.
\<close>

theorem C1_outbound_B_impersonates_node_B:
  "Server node_a \<noteq> None \<and> Server node_b \<noteq> None
   \<and> fst (Start happy_env (NewConnectionBridge node_a node_b)) = Returns None
   \<and> connectionOutboundB (snd (Start happy_env (NewConnectionBridge node_a node_b))) = Some 3
   \<and> map_option sent (peers (snd (Start happy_env (NewConnectionBridge node_a node_b))) 3) =
       Some [MsgVersion (getVersionMessage node_b 100 14), MsgDeSoVerack 1014]
   \<and> MsgUserAgent (getVersionMessage node_b 100 14) = ''node-b''
   \<and> MsgUserAgent (getVersionMessage node_a 100 14) = ''node-a''
   \<and> connectionInboundA (snd (Start happy_env (NewConnectionBridge node_a node_b))) = Some 0
   \<and> map_option sent (peers (snd (Start happy_env (NewConnectionBridge node_a node_b))) 0) =
       Some [MsgVersion (getVersionMessage node_b 100 11), MsgDeSoVerack 1011]
   \<and> connectionInboundB (snd (Start happy_env (NewConnectionBridge node_a node_b))) = Some 1
   \<and> map_option sent (peers (snd (Start happy_env (NewConnectionBridge node_a node_b))) 1) =
       Some [MsgVersion (getVersionMessage node_a 100 12), MsgDeSoVerack 1012]
   \<and> connectionOutboundA (snd (Start happy_env (NewConnectionBridge node_a node_b))) = Some 2
   \<and> map_option sent (peers (snd (Start happy_env (NewConnectionBridge node_a node_b))) 2) =
       Some [MsgVersion (getVersionMessage node_b 100 13), MsgDeSoVerack 1013]"
proof -
  have ua: "MsgUserAgent (getVersionMessage node_b 100 14) = ''node-b''"
    "MsgUserAgent (getVersionMessage node_a 100 14) = ''node-a''"
    by (simp_all add: getVersionMessage_fields node_a_def node_b_def)
  have srv: "Server node_a \<noteq> None" "Server node_b \<noteq> None"
    by (simp_all add: node_a_def node_b_def)
  show ?thesis
    unfolding ua using srv by (simp add: Start_happy negotiated_def)
qed

section \<open>Properties of Disconnect\<close>

lemma andThen_inv:
  assumes "P (snd r)" and "\<And>b. P b \<Longrightarrow> P (snd (k b))"
  shows "P (snd (andThen r k))"
  using assms by (cases r) (auto simp: andThen_def split: outcome.splits)

lemma PeerDisconnect_disabled: "disabled (snd (PeerDisconnect x b)) = disabled b"
  by (simp add: PeerDisconnect_def split: option.splits)

lemma closeListenerA_disabled: "disabled (snd (closeListenerA b)) = disabled b"
  by (simp add: closeListenerA_def ListenerClose_def split: option.splits)

lemma closeListenerB_disabled: "disabled (snd (closeListenerB b)) = disabled b"
  by (simp add: closeListenerB_def ListenerClose_def split: option.splits)

lemma wgWait_disabled: "disabled (snd (wgWait n b)) = disabled b"
  by (simp add: wgWait_def)

lemma Disconnect_sets_disabled: "disabled (snd (Disconnect released bridge))"
proof (cases "disabled bridge")
  case True
  then show ?thesis by (simp add: Disconnect_def)
next
  case False
  then show ?thesis
    unfolding Disconnect_def Let_def
    apply simp
    apply (rule andThen_inv[where P = disabled], simp add: PeerDisconnect_disabled)+
    apply (rule andThen_inv[where P = disabled], simp add: closeListenerA_disabled)
    apply (rule andThen_inv[where P = disabled], simp add: closeListenerB_disabled)
    apply (simp add: wgWait_disabled)
    done
qed

text \<open>
  C10. On a bridge whose \<open>disabled\<close> flag is set, \<open>Disconnect\<close> returns at once and leaves the
  whole state as it is: no leg, listener or counter is touched, and the call neither blocks
  nor panics. A \<open>Disconnect\<close> that follows another \<open>Disconnect\<close> is such a call, whatever the
  first one did.
\<close>

theorem C10_Disconnect_idempotent:
  "(disabled bridge \<longrightarrow> Disconnect released bridge = (Returns (), bridge))
   \<and> Disconnect released' (snd (Disconnect released bridge)) =
       (Returns (), snd (Disconnect released bridge))"
  using Disconnect_sets_disabled[of released bridge] by (simp add: Disconnect_def)

lemma stopped_bridge_disabled: "disabled stopped_bridge"
  by (simp add: stopped_bridge_def Disconnect_sets_disabled)

text \<open>C10 at the bridge that was started and then disconnected.\<close>

theorem C10_Disconnect_idempotent_witness:
  "disabled stopped_bridge
   \<and> Disconnect 0 stopped_bridge = (Returns (), stopped_bridge)
   \<and> Disconnect 0 (snd (Disconnect 3 running_bridge)) =
       (Returns (), snd (Disconnect 3 running_bridge))"
  using C10_Disconnect_idempotent[of stopped_bridge 0 0]
    C10_Disconnect_idempotent[of running_bridge 3 0] stopped_bridge_disabled
  by simp

text \<open>
  A \<open>Disconnect\<close> on a bridge that is not disabled cannot return while the wait group counter
  exceeds what the other tasks release.
\<close>

lemma andThen_Returns:
  "andThen r k = (Returns x, b') \<Longrightarrow> \<exists>b1. r = (Returns (), b1) \<and> k b1 = (Returns x, b')"
  by (cases r) (auto simp: andThen_def split: outcome.splits)

lemma PeerDisconnect_waitGroup:
  "PeerDisconnect x b = (r, b') \<Longrightarrow> waitGroup b' = waitGroup b"
  by (auto simp: PeerDisconnect_def split: option.splits)

lemma closeListenerA_waitGroup:
  "closeListenerA b = (r, b') \<Longrightarrow> waitGroup b' = waitGroup b"
  by (auto simp: closeListenerA_def ListenerClose_def split: option.splits)

lemma closeListenerB_waitGroup:
  "closeListenerB b = (r, b') \<Longrightarrow> waitGroup b' = waitGroup b"
  by (auto simp: closeListenerB_def ListenerClose_def split: option.splits)

lemma Disconnect_waits_for_counter:
  assumes "\<not> disabled b" and "released < waitGroup b"
  shows "fst (Disconnect released b) \<noteq> Returns ()"
proof
  assume "fst (Disconnect released b) = Returns ()"
  then obtain b' where d: "Disconnect released b = (Returns (), b')"
    by (metis prod.collapse)
  from d assms(1) obtain b1 b2 b3 b4 b5 b6 where
    s1: "PeerDisconnect (connectionInboundA b) (b\<lparr>disabled := True\<rparr>) = (Returns (), b1)"
    and s2: "PeerDisconnect (connectionInboundB b1) b1 = (Returns (), b2)"
    and s3: "PeerDisconnect (connectionOutboundA b2) b2 = (Returns (), b3)"
    and s4: "PeerDisconnect (connectionOutboundB b3) b3 = (Returns (), b4)"
    and s5: "closeListenerA b4 = (Returns (), b5)"
    and s6: "closeListenerB b5 = (Returns (), b6)"
    and k6: "wgWait released b6 = (Returns (), b')"
    unfolding Disconnect_def Let_def by (auto dest!: andThen_Returns)
  have "waitGroup b6 = waitGroup b"
    using PeerDisconnect_waitGroup[OF s1] PeerDisconnect_waitGroup[OF s2]
      PeerDisconnect_waitGroup[OF s3] PeerDisconnect_waitGroup[OF s4]
      closeListenerA_waitGroup[OF s5] closeListenerB_waitGroup[OF s6] by simp
  then show False using k6 assms(2) by (simp add: wgWait_def split: if_splits)
qed

text \<open>
  When its \<open>Disconnect\<close> returns, \<open>Restart\<close> runs \<open>Start\<close> and returns normally whatever
  \<open>Start\<close> returned: the error is dropped.
\<close>

lemma Restart_drops_error:
  assumes "Disconnect (re_released env) b = (Returns (), b1)"
    and "Start (re_start env) b1 = (Returns err, b2)"
  shows "Restart env b = (Returns (), b2)"
  using assms by (simp add: Restart_def andThen_def)

section \<open>Properties of the router\<close>

lemmas router_defs =
  routeTraffic_def wgAdd_def routeStep_def Let_def ReadDeSoMessage_def onReadError_def
  restartAndReturn_def Restart_def Disconnect_def andThen_def PeerDisconnect_def
  closeListenerA_def closeListenerB_def ListenerClose_def wgWait_def wgDone_def afterLoop_def
  forward_def WriteDeSoMessage_def negotiated_def

subsection \<open>The paths that call Restart\<close>

text \<open>
  A router that calls \<open>Restart\<close> is still counted by the wait group: it has called
  \<^verbatim>\<open>Add(1)\<close> and not \<^verbatim>\<open>Done()\<close>. As long as the other tasks release no more than the counter
  held before this router registered, the \<open>Disconnect\<close> inside \<open>Restart\<close> does not return, so
  the router neither reaches \<open>Start\<close> nor exits.
\<close>

lemma restartAndReturn_stalls:
  assumes "\<not> disabled b" and "re_released renv < waitGroup b"
  shows "fst (restartAndReturn renv b) = Stop BlockedInWait
       \<or> fst (restartAndReturn renv b) = Stop Panicked"
proof -
  obtain r b1 where d: "Disconnect (re_released renv) b = (r, b1)" by force
  have "r \<noteq> Returns ()" using Disconnect_waits_for_counter[OF assms] d by simp
  then have "r = Panics \<or> r = Blocks" by (cases r) auto
  then show ?thesis using d
    by (auto simp: restartAndReturn_def Restart_def andThen_def)
qed

lemma routeTraffic_read_error_stalls:
  assumes "\<not> obs_disabled t" "\<not> obs_paused t" "\<not> obs_disabled_after t"
    and "next_read b s = Some (Inl err)"
    and "re_released renv \<le> waitGroup b"
  shows "fst (routeTraffic (t # ts) renv (Some s) dst b) = BlockedInWait
       \<or> fst (routeTraffic (t # ts) renv (Some s) dst b) = Panicked"
proof -
  obtain sp where sp: "peers b s = Some sp" using assms(4)
    by (auto simp: next_read_def split: option.splits)
  obtain es where na: "next_arrival (incoming sp) = Some (Inl err, es)"
    using assms(4) sp by (auto simp: next_read_def)
  let ?b1 = "(wgAdd b)\<lparr>peers := (peers b)(s := Some (sp\<lparr>incoming := es\<rparr>)),
      disabled := False, paused := paused_after t\<rparr>"
  have step: "routeStep t renv (Some s) dst (wgAdd b) = onReadError renv dst ?b1"
    using assms(1-3) sp na
    by (simp add: routeStep_def Let_def ReadDeSoMessage_def wgAdd_def)
  have "\<not> disabled ?b1" "re_released renv < waitGroup ?b1"
    using assms(5) by (simp_all add: wgAdd_def)
  from restartAndReturn_stalls[OF this]
  obtain b2 where "restartAndReturn renv ?b1 = (Stop BlockedInWait, b2)
       \<or> restartAndReturn renv ?b1 = (Stop Panicked, b2)"
    by (metis prod.collapse)
  then have "\<exists>b3. onReadError renv dst ?b1 = (Stop BlockedInWait, b3)
       \<or> onReadError renv dst ?b1 = (Stop Panicked, b3)"
    by (auto simp: onReadError_def split: option.splits)
  then show ?thesis
    unfolding routeTraffic_def routeLoop.simps step by auto
qed

text \<open>
  The path that leaves the loop by \<^verbatim>\<open>break\<close> does signal: a router that observes \<open>disabled\<close>
  exits with the counter back at its value before the router registered.
\<close>

lemma routeTraffic_disabled_signals:
  assumes "obs_disabled t"
  shows "fst (routeTraffic (t # ts) renv s d b) = Exited"
    and "waitGroup (snd (routeTraffic (t # ts) renv s d b)) = waitGroup b"
  using assms
  by (simp_all add: routeTraffic_def routeStep_def Let_def wgAdd_def afterLoop_def wgDone_def)

text \<open>
  C3, the code at the failing input: the bridge is running, the three other routers are
  registered with the wait group, and the read of the router from \<open>connectionOutboundB\<close> to
  \<open>connectionInboundA\<close> fails because node B has closed its socket. The router calls
  \<open>Restart\<close> and never calls \<^verbatim>\<open>Done()\<close>: it ends blocked in the wait of \<open>Disconnect\<close>, and
  after the three other routers have finished the counter stays at 1, its own registration.
\<close>

theorem C3_read_error_never_signals:
  "fst (routeTraffic [run_tick] others_finish (Some 3) (Some 0) running_bridge) = BlockedInWait
   \<and> waitGroup (snd (routeTraffic [run_tick] others_finish (Some 3) (Some 0) running_bridge)) = 1"
  by (simp add: running_bridge_def Start_happy run_tick_def others_finish_def router_defs)

text \<open>
  C6, the code at the failing input: on the same bridge the router from
  \<open>connectionOutboundA\<close> to \<open>connectionInboundB\<close> reads a message and its write fails. The
  router calls \<open>Restart\<close>, whose \<open>Disconnect\<close> sets \<open>disabled\<close>, tears the legs down and then
  waits for the wait group, which still counts this router. \<open>Start\<close> is not reached: no new
  leg is allocated and no router task is launched, and the router does not exit.
\<close>

theorem C6_restart_from_router_stalls:
  "fst (routeTraffic [run_tick] others_finish (Some 2) (Some 1) running_bridge) = BlockedInWait
   \<and> disabled (snd (routeTraffic [run_tick] others_finish (Some 2) (Some 1) running_bridge))
   \<and> tasks (snd (routeTraffic [run_tick] others_finish (Some 2) (Some 1) running_bridge)) =
       tasks running_bridge
   \<and> next_peer (snd (routeTraffic [run_tick] others_finish (Some 2) (Some 1) running_bridge)) =
       next_peer running_bridge
   \<and> waitGroup (snd (routeTraffic [run_tick] others_finish (Some 2) (Some 1) running_bridge)) = 1"
  by (simp add: running_bridge_def Start_happy run_tick_def others_finish_def router_defs)

subsection \<open>One iteration\<close>












subsection \<open>Runs of the loop\<close>











subsection \<open>Forwarding\<close>






subsection \<open>Pausing\<close>







end
